theory Spec2Isabelle
  imports Main "HOL-Library.Word"
begin

unbundle bit_operations_syntax

section \<open>Go values used by engine/container.go\<close>

type_synonym byte = "8 word"

text \<open>
  Go functions that can panic (a method call on a nil interface value) return a
  \<open>'a go\<close>: either the values of the \<open>return\<close> statement or a panic.
\<close>

datatype 'a go = Return 'a | Panic

text \<open>
  Error values. \<open>Canceled\<close> is the sentinel \<open>context.Canceled\<close>, \<open>EOF\<close> is
  \<open>io.EOF\<close>; \<open>Err msg\<close> is any other error value, with the text its \<open>Error()\<close>
  method gives. Comparing with \<open>==\<close> in Go compares the values, not the messages, so
  \<open>Err ''context canceled''\<close> is not \<open>Canceled\<close>.
\<close>

datatype error = Canceled | EOF | ErrUnexpectedEOF | ErrShortWrite | Err string

fun Error :: "error \<Rightarrow> string" where
  "Error Canceled = ''context canceled''"
| "Error EOF = ''EOF''"
| "Error ErrUnexpectedEOF = ''unexpected EOF''"
| "Error ErrShortWrite = ''short write''"
| "Error (Err msg) = msg"

text \<open>\<open>strings.HasSuffix(s, suffix)\<close>:
  \<^verbatim>\<open>len(s) >= len(suffix) && s[len(s)-len(suffix):] == suffix\<close>\<close>

definition HasSuffix :: "string \<Rightarrow> string \<Rightarrow> bool" where
  "HasSuffix s suffix =
     (length s \<ge> length suffix \<and> drop (length s - length suffix) s = suffix)"

text \<open>\<^verbatim>\<open>
func isErrCanceled(err error) bool {
	return err == context.Canceled || (err != nil && strings.HasSuffix(err.Error(), "context canceled"))
}\<close>\<close>

definition isErrCanceled :: "error option \<Rightarrow> bool" where
  "isErrCanceled err =
     (err = Some Canceled \<or>
      (case err of None \<Rightarrow> False | Some e \<Rightarrow> HasSuffix (Error e) ''context canceled''))"

text \<open>\<open>time.Duration\<close> counts nanoseconds.\<close>

definition Millisecond :: int where "Millisecond = 1000000"
definition Second :: int where "Second = 1000 * Millisecond"

section \<open>The container runtime as the environment\<close>

text \<open>
  \<open>container.Config\<close> and \<open>container.HostConfig\<close> belong to the Docker client
  library; the code reads \<open>config.Hostname\<close> only and hands both on unchanged.
\<close>

record Config =
  Hostname :: string
  Image :: string

datatype HostConfig = HostConfig "string list"

text \<open>\<open>types.ContainerLogsOptions\<close>, with the fields the code sets; \<open>Since\<close> is
  the empty string where the code leaves it out.\<close>

record ContainerLogsOptions =
  ShowStdout :: bool
  ShowStderr :: bool
  Timestamps :: bool
  Follow :: bool
  Since :: string

text \<open>\<open>types.ContainerCommitOptions\<close>, with the fields the code sets.\<close>

record ContainerCommitOptions =
  Reference :: string
  Author :: string
  Pause :: bool
  CommitConfig :: Config

text \<open>A stream the runtime hands out (an HTTP response body) is named by a handle.\<close>

type_synonym handle = nat

text \<open>
  Everything the code does to the outside is logged as an event: each call of the
  Docker client with its arguments (the context left out), each close of a stream,
  each send on and close of a channel, the cancellation of the shared context, and the
  closing of the exit channel by the caller.
\<close>

datatype event =
    DockerCreate Config HostConfig string
  | DockerRemove string bool
  | DockerStart string
  | DockerLogs string ContainerLogsOptions
  | DockerWait string
  | DockerRestart string int
  | DockerInspect string
  | DockerCommit string ContainerCommitOptions
  | DockerCopyTo string string
  | DockerCopyFrom string string
  | CloseStream handle
  | SendSrc handle
  | CloseSrcs
  | CloseDone
  | CancelCtx
  | ExitClosed

text \<open>
  An \<open>io.ReadCloser\<close>, one constructor for each type of the code that is one:
  \<^item> \<open>Body h bytes err\<close>: a stream of the runtime or of the caller, with the bytes
    reading yields and the error its \<open>Close\<close> returns;
  \<^item> \<open>splitReadCloser reader closer\<close> (lines 220 to 223): \<open>Read\<close> is the embedded
    reader's, given by the bytes it yields, \<open>Close\<close> the embedded closer's;
  \<^item> \<open>closeWrapper rc After\<close> (lines 225 to 228): \<open>After\<close> is a \<open>func() error\<close>,
    so it takes the events so far and returns its error and the events after it.
\<close>

datatype readcloser =
    Body handle "byte list" "error option"
  | splitReadCloser "byte list" readcloser
  | closeWrapper readcloser "event list \<Rightarrow> error option \<times> event list"

text \<open>
  A tar archive as \<open>archive/tar\<close> reads it from the stream \<open>raw\<close>: the entries
  \<open>Next()\<close> returns in turn (header name, header size, and the bytes the reader
  yields while it stands at the entry), then the error \<open>Next()\<close> returns once they
  are used up: \<open>io.EOF\<close> for an archive that ends as it should, another error for a
  damaged one.
\<close>

record tar_entry =
  Name :: string
  EntrySize :: int
  Data :: "byte list"

record archive =
  raw :: readcloser
  entries :: "tar_entry list"
  ending :: error

text \<open>\<open>types.ContainerPathStat\<close>, with the field the code reads.\<close>

record ContainerPathStat =
  StatName :: string
  StatSize :: int

text \<open>
  The Docker client. Each method answers from the events so far (so that a call can
  fail once and succeed later) and its arguments. A method that returns a value and an
  error returns \<open>Inl\<close> the error or \<open>Inr\<close> the value: the client returns a nil
  value with every error.
\<close>

record docker =
  ContainerCreate :: "event list \<Rightarrow> Config \<Rightarrow> HostConfig \<Rightarrow> string \<Rightarrow> error + string"
  ContainerRemove :: "event list \<Rightarrow> string \<Rightarrow> bool \<Rightarrow> error option"
  ContainerStart :: "event list \<Rightarrow> string \<Rightarrow> error option"
  ContainerLogs :: "event list \<Rightarrow> string \<Rightarrow> ContainerLogsOptions \<Rightarrow> error + handle"
  ContainerWait :: "event list \<Rightarrow> string \<Rightarrow> int \<times> error option"
  ContainerRestart :: "event list \<Rightarrow> string \<Rightarrow> int \<Rightarrow> error option"
  ContainerInspect :: "event list \<Rightarrow> string \<Rightarrow> error + string"
  ContainerCommit :: "event list \<Rightarrow> string \<Rightarrow> ContainerCommitOptions \<Rightarrow> string \<times> error option"
  CopyToContainer :: "event list \<Rightarrow> string \<Rightarrow> string \<Rightarrow> byte list option \<Rightarrow> error option"
  CopyFromContainer :: "event list \<Rightarrow> string \<Rightarrow> string \<Rightarrow> error + (archive \<times> ContainerPathStat)"

text \<open>The two functions of package \<open>time\<close> whose result depends on the layout
  \<open>time.RFC3339Nano\<close>; a \<open>time.Time\<close> is its count of nanoseconds since the Unix
  epoch, so \<open>time.Unix(0, 0)\<close> is 0 and \<open>t.Add(d)\<close> is \<open>t + d\<close>.\<close>

record timelib =
  Parse :: "string \<Rightarrow> int option"
  Format :: "int \<Rightarrow> string"

section \<open>The container handle\<close>

text \<open>\<^verbatim>\<open>
type Container struct {
	Docker *docker.Client
	Exit   <-chan struct{}
	ID     string
	config *container.Config
}\<close>
  \<open>Exit\<close> is \<open>None\<close> for a nil channel.\<close>

record Container =
  Docker :: docker
  Exit :: "handle option"
  ID :: string
  config :: Config

text \<open>\<^verbatim>\<open>
func NewContainer(docker *docker.Client, config *container.Config, hostConfig *container.HostConfig) (*Container, error) {
	uuid, err := gouuid.NewV4()
	if err != nil {
		return nil, err
	}
	ctx := context.Background()
	response, err := docker.ContainerCreate(ctx, config, hostConfig, nil, fmt.Sprintf("%s-%s", config.Hostname, uuid))
	if err != nil {
		return nil, err
	}
	return &Container{docker, nil, response.ID, config}, nil
}\<close>
  \<open>NewV4\<close> is what \<open>gouuid.NewV4()\<close> returns: an error, or the random UUID in the
  text form \<open>%s\<close> prints.\<close>

definition NewContainer ::
  "error + string \<Rightarrow> docker \<Rightarrow> Config \<Rightarrow> HostConfig \<Rightarrow> event list
     \<Rightarrow> (error + Container) \<times> event list" where
  "NewContainer NewV4 docker cfg hostConfig tr =
     (case NewV4 of
        Inl err \<Rightarrow> (Inl err, tr)
      | Inr uuid \<Rightarrow>
          (let name = Hostname cfg @ ''-'' @ uuid;
               tr1 = tr @ [DockerCreate cfg hostConfig name]
           in case ContainerCreate docker tr cfg hostConfig name of
                Inl err \<Rightarrow> (Inl err, tr1)
              | Inr responseID \<Rightarrow>
                  (Inr \<lparr>Docker = docker, Exit = None, ID = responseID, config = cfg\<rparr>, tr1)))"

text \<open>\<^verbatim>\<open>
func (c *Container) Close() error {
	ctx := context.Background()
	return c.Docker.ContainerRemove(ctx, c.ID, types.ContainerRemoveOptions{
		Force: true,
	})
}\<close>\<close>

definition Close :: "Container \<Rightarrow> event list \<Rightarrow> error option \<times> event list" where
  "Close c tr = (ContainerRemove (Docker c) tr (ID c) True, tr @ [DockerRemove (ID c) True])"

section \<open>Start\<close>

text \<open>
  Start runs three goroutines: its own, the watcher (lines 71 to 79) and
  \<open>copyStreams\<close>. The state the first two share is below. A schedule lists, in the
  order they happen, the steps that are not Start's own straight-line code:
  \<^item> \<open>ExitFires\<close>: the caller closes \<open>c.Exit\<close> (nothing happens when it is nil);
  \<^item> \<open>Watcher\<close>: the watcher's \<open>select\<close> runs; while Start has not returned only
    its \<open>case <-c.Exit\<close> can be ready, and taking it ends the goroutine;
  \<^item> \<open>SelectRestart\<close>: a value is ready on \<open>restart\<close> and the \<open>select\<close> of the loop
    takes \<open>case <-restart\<close>, which a nil channel never allows;
  \<^item> \<open>SelectExit\<close>: the \<open>select\<close> of the loop takes \<open>case <-c.Exit\<close>, which needs the
    channel closed.
  A step that cannot happen in the state it meets leaves the state as it is. When
  several cases of a \<open>select\<close> are ready Go takes any one of them, and nothing orders
  the watcher's write of \<open>restart\<close> before the next \<open>select\<close> of the loop: the
  schedule decides both. A schedule that ends before Start returns leaves Start
  blocked: the result is \<open>None\<close>.
\<close>

datatype step = ExitFires | Watcher | SelectRestart | SelectExit

text \<open>\<open>srcVar\<close> is the variable \<open>src\<close>, \<open>restartNil\<close> says that the variable
  \<open>restart\<close> is nil, \<open>watching\<close> that the watcher has not yet left its
  \<open>select\<close>.\<close>

record start_state =
  trace :: "event list"
  exitFired :: bool
  watching :: bool
  restartNil :: bool
  srcVar :: "handle option"

definition fire :: "Container \<Rightarrow> start_state \<Rightarrow> start_state" where
  "fire c s =
     (if Exit c = None \<or> exitFired s then s
      else s\<lparr>trace := trace s @ [ExitClosed], exitFired := True\<rparr>)"

text \<open>\<^verbatim>\<open>
	go func() {
		select {
		case <-done:
			cancel()
		case <-c.Exit:
			restart = nil
			cancel()
		}
	}()\<close>
  \<open>done\<close> is closed when Start returns; the \<open>cancel()\<close> that follows is after
  every event of Start and is left out.\<close>

definition watcher :: "start_state \<Rightarrow> start_state" where
  "watcher s =
     (if watching s \<and> exitFired s
      then s\<lparr>trace := trace s @ [CancelCtx], watching := False, restartNil := True\<rparr>
      else s)"

text \<open>The deferred function of lines 62 to 67.\<close>

definition normalizeCanceled :: "int \<times> error option \<Rightarrow> int \<times> error option" where
  "normalizeCanceled r = (if isErrCanceled (snd r) then (128, None) else r)"

text \<open>
  A \<open>return\<close> before line 96 runs, last registered first, \<open>close(srcs)\<close>,
  \<open>close(done)\<close> and the function of lines 62 to 67. A \<open>return\<close> after line 96
  first runs \<open>src.Close()\<close> on what the variable \<open>src\<close> holds by then; on a nil
  \<open>src\<close> that call panics, the other deferred functions still run, none recovers,
  and Start panics.
\<close>

definition return_early :: "event list \<Rightarrow> int \<times> error option
    \<Rightarrow> (int \<times> error option) go \<times> event list" where
  "return_early tr r = (Return (normalizeCanceled r), tr @ [CloseSrcs, CloseDone])"

definition return_late :: "handle option \<Rightarrow> event list \<Rightarrow> int \<times> error option
    \<Rightarrow> (int \<times> error option) go \<times> event list" where
  "return_late s tr r =
     (case s of
        None \<Rightarrow> (Panic, tr @ [CloseSrcs, CloseDone])
      | Some h \<Rightarrow> (Return (normalizeCanceled r), tr @ [CloseStream h, CloseSrcs, CloseDone]))"

text \<open>The options of the first log request (lines 87 to 92) and of the one after a
  restart (lines 119 to 125).\<close>

definition firstLogs :: ContainerLogsOptions where
  "firstLogs = \<lparr>ShowStdout = True, ShowStderr = True, Timestamps = True, Follow = True,
                 Since = ''''\<rparr>"

definition logsSince :: "timelib \<Rightarrow> int \<Rightarrow> ContainerLogsOptions" where
  "logsSince T startedAt =
     \<lparr>ShowStdout = True, ShowStderr = True, Timestamps = True, Follow = True,
      Since = Format T (startedAt + (- 10) * Millisecond)\<rparr>"

text \<open>
  The body of \<open>case <-restart\<close> (lines 106 to 129). \<open>Inr\<close> is the state the loop
  goes on with, after a \<open>continue\<close> or at the end of the body; \<open>Inl\<close> is a panic at
  \<open>src.Close()\<close> on a nil \<open>src\<close> (line 118), with the events up to there.
  A failed log request leaves \<open>src\<close> nil (line 119 assigns the client's nil value).
\<close>

definition restart_body :: "timelib \<Rightarrow> Container \<Rightarrow> start_state \<Rightarrow> event list + start_state" where
  "restart_body T c s =
     (let tr1 = trace s @ [DockerRestart (ID c) Second] in
      case ContainerRestart (Docker c) (trace s) (ID c) Second of
        Some err \<Rightarrow> Inr (s\<lparr>trace := tr1\<rparr>)
      | None \<Rightarrow>
          (let tr2 = tr1 @ [DockerInspect (ID c)] in
           case ContainerInspect (Docker c) tr1 (ID c) of
             Inl err \<Rightarrow> Inr (s\<lparr>trace := tr2\<rparr>)
           | Inr StartedAt \<Rightarrow>
               (let startedAt = (case Parse T StartedAt of None \<Rightarrow> 0 | Some t \<Rightarrow> t) in
                case srcVar s of
                  None \<Rightarrow> Inl tr2
                | Some old \<Rightarrow>
                    (let tr3 = tr2 @ [CloseStream old];
                         tr4 = tr3 @ [DockerLogs (ID c) (logsSince T startedAt)]
                     in case ContainerLogs (Docker c) tr3 (ID c) (logsSince T startedAt) of
                          Inl err \<Rightarrow> Inr (s\<lparr>trace := tr4, srcVar := None\<rparr>)
                        | Inr new \<Rightarrow> Inr (s\<lparr>trace := tr4 @ [SendSrc new], srcVar := Some new\<rparr>)))))"

text \<open>The loop of lines 103 to 133, one schedule step at a time.\<close>

fun loop :: "timelib \<Rightarrow> Container \<Rightarrow> start_state \<Rightarrow> step list
    \<Rightarrow> ((int \<times> error option) go \<times> event list) option" where
  "loop T c s [] = None"
| "loop T c s (ExitFires # sch) = loop T c (fire c s) sch"
| "loop T c s (Watcher # sch) = loop T c (watcher s) sch"
| "loop T c s (SelectRestart # sch) =
     (if restartNil s then loop T c s sch
      else case restart_body T c s of
             Inl tr \<Rightarrow> Some (Panic, tr @ [CloseSrcs, CloseDone])
           | Inr s' \<Rightarrow> loop T c s' sch)"
| "loop T c s (SelectExit # sch) =
     (if exitFired s then Some (return_late (srcVar s) (trace s) (128, None))
      else loop T c s sch)"

text \<open>The steps of the schedule that happen before Start reads \<open>restart\<close> at line 99:
  only the exit signal and the watcher can move then.\<close>

fun background :: "Container \<Rightarrow> start_state \<Rightarrow> step list \<Rightarrow> start_state \<times> step list" where
  "background c s (ExitFires # sch) = background c (fire c s) sch"
| "background c s (Watcher # sch) = background c (watcher s) sch"
| "background c s sch = (s, sch)"

text \<open>
  \<open>Start(logPrefix, logs, restart)\<close>. \<open>logPrefix\<close> and \<open>logs\<close> only go to
  \<open>copyStreams\<close> (line 82), which is modelled below on its own: it receives what the
  \<open>SendSrc\<close> events send, and its channel is unbuffered, so it has taken a source when
  the send returns. \<open>restart\<close> is \<open>True\<close> for a channel, \<open>False\<close> for nil.
\<close>

definition Start :: "timelib \<Rightarrow> Container \<Rightarrow> bool \<Rightarrow> step list \<Rightarrow> event list
    \<Rightarrow> ((int \<times> error option) go \<times> event list) option" where
  "Start T c restart sch tr =
     (let tr1 = tr @ [DockerStart (ID c)] in
      case ContainerStart (Docker c) tr (ID c) of
        Some err \<Rightarrow> Some (return_early tr1 (0, Some err))
      | None \<Rightarrow>
          (let tr2 = tr1 @ [DockerLogs (ID c) firstLogs] in
           case ContainerLogs (Docker c) tr1 (ID c) firstLogs of
             Inl err \<Rightarrow> Some (return_early tr2 (0, Some err))
           | Inr h \<Rightarrow>
               (case background c
                       \<lparr>trace = tr2 @ [SendSrc h], exitFired = False, watching = True,
                        restartNil = (\<not> restart), srcVar = Some h\<rparr> sch of
                  (s, sch') \<Rightarrow>
                    if restartNil s
                    then Some (return_late (srcVar s) (trace s @ [DockerWait (ID c)])
                                 (ContainerWait (Docker c) (trace s) (ID c)))
                    else loop T c s sch')))"

section \<open>The log multiplexer\<close>










section \<open>Streams and file copy\<close>

text \<open>\<open>Close()\<close> of an \<open>io.ReadCloser\<close>. For the wrapper:
  \<^verbatim>\<open>
func (c *closeWrapper) Close() (err error) {
	defer func() {
		if afterErr := c.After(); err == nil {
			err = afterErr
		}
	}()
	return c.ReadCloser.Close()
}\<close>\<close>

fun ReadCloser_Close :: "readcloser \<Rightarrow> event list \<Rightarrow> error option \<times> event list" where
  "ReadCloser_Close (Body h bytes closeErr) tr = (closeErr, tr @ [CloseStream h])"
| "ReadCloser_Close (splitReadCloser reader closer) tr = ReadCloser_Close closer tr"
| "ReadCloser_Close (closeWrapper rc After) tr =
     (case ReadCloser_Close rc tr of
        (err, tr1) \<Rightarrow>
          (case After tr1 of
             (afterErr, tr2) \<Rightarrow> (if err = None then afterErr else err, tr2)))"

text \<open>The bytes reading an \<open>io.ReadCloser\<close> to its end yields.\<close>

fun ReadAll :: "readcloser \<Rightarrow> byte list" where
  "ReadAll (Body h bytes closeErr) = bytes"
| "ReadAll (splitReadCloser reader closer) = reader"
| "ReadAll (closeWrapper rc After) = ReadAll rc"

text \<open>
  Modelled from the spec: the type \<open>Stream\<close> and \<open>NewStream\<close>, whose file is not among
  the sources. The spec has "a byte-readable resource plus its declared size"; the
  code uses the fields \<open>stream.ReadCloser\<close> (nil for no reader) and \<open>stream.Size\<close>,
  \<open>NewStream(data, size)\<close>, and \<open>stream.Close()\<close>, the embedded reader's method,
  which panics on a nil reader.
\<close>

record Stream =
  ReadCloser :: "readcloser option"
  Size :: int

definition NewStream :: "readcloser \<Rightarrow> int \<Rightarrow> Stream" where
  "NewStream data sz = \<lparr>ReadCloser = Some data, Size = sz\<rparr>"

definition Stream_Close :: "Stream \<Rightarrow> event list \<Rightarrow> error option go \<times> event list" where
  "Stream_Close stream tr =
     (case ReadCloser stream of
        None \<Rightarrow> (Panic, tr)
      | Some rc \<Rightarrow> (case ReadCloser_Close rc tr of (err, tr1) \<Rightarrow> (Return err, tr1)))"

text \<open>\<^verbatim>\<open>
func (c *Container) CloseAfterStream(stream *Stream) error {
	if stream == nil || stream.ReadCloser == nil {
		return c.Close()
	}
	stream.ReadCloser = &closeWrapper{
		ReadCloser: stream.ReadCloser,
		After:      c.Close,
	}
	return nil
}\<close>
  \<open>stream\<close> is \<open>None\<close> for a nil pointer; the result has the stream as the call
  leaves it.\<close>

definition CloseAfterStream :: "Container \<Rightarrow> Stream option \<Rightarrow> event list
    \<Rightarrow> (error option \<times> Stream option) \<times> event list" where
  "CloseAfterStream c stream tr =
     (case stream of
        None \<Rightarrow> (case Close c tr of (err, tr1) \<Rightarrow> ((err, None), tr1))
      | Some st \<Rightarrow>
          (case ReadCloser st of
             None \<Rightarrow> (case Close c tr of (err, tr1) \<Rightarrow> ((err, Some st), tr1))
           | Some rc \<Rightarrow>
               ((None, Some (st\<lparr>ReadCloser := Some (closeWrapper rc (Close c))\<rparr>)), tr)))"

text \<open>\<^verbatim>\<open>
func (c *Container) Commit(ref string) (imageID string, err error) {
	ctx := context.Background()
	response, err := c.Docker.ContainerCommit(ctx, c.ID, types.ContainerCommitOptions{
		Reference: ref,
		Author:    "CF Local",
		Pause:     true,
		Config:    c.config,
	})
	return response.ID, err
}\<close>\<close>

definition Commit :: "Container \<Rightarrow> string \<Rightarrow> event list \<Rightarrow> (string \<times> error option) \<times> event list" where
  "Commit c ref tr =
     (let opts = \<lparr>Reference = ref, Author = ''CF Local'', Pause = True, CommitConfig = config c\<rparr>
      in (ContainerCommit (Docker c) tr (ID c) opts, tr @ [DockerCommit (ID c) opts]))"

text \<open>\<^verbatim>\<open>
func onlyReader(r io.Reader) io.Reader {
	if r == nil {
		return nil
	}
	return struct{ io.Reader }{r}
}\<close>
  The archive to extract is the bytes it yields, \<open>None\<close> for a nil reader.\<close>

definition onlyReader :: "byte list option \<Rightarrow> byte list option" where
  "onlyReader r = (case r of None \<Rightarrow> None | Some bytes \<Rightarrow> Some bytes)"

text \<open>\<^verbatim>\<open>
func (c *Container) ExtractTo(tar io.Reader, path string) error {
	ctx := context.Background()
	return c.Docker.CopyToContainer(ctx, c.ID, path, onlyReader(tar), types.CopyToContainerOptions{})
}\<close>\<close>

definition ExtractTo :: "Container \<Rightarrow> byte list option \<Rightarrow> string \<Rightarrow> event list
    \<Rightarrow> error option \<times> event list" where
  "ExtractTo c tar path tr =
     (CopyToContainer (Docker c) tr (ID c) path (onlyReader tar), tr @ [DockerCopyTo (ID c) path])"

text \<open>\<^verbatim>\<open>
func (c *Container) CopyTo(stream Stream, path string) error {
	tar, err := tarFile(path, stream, stream.Size, 0755)
	if err != nil {
		return err
	}
	if err := c.ExtractTo(tar, "/"); err != nil {
		return err
	}
	return stream.Close()
}\<close>
  \<open>tarFile\<close> is not among the sources and is a parameter: it is called with the path,
  the stream as an \<open>io.Reader\<close>, the size and the mode, and returns an error or the
  archive. Through an \<open>io.Reader\<close> it can read the stream but not close it, so it adds
  no event. Octal 0755 is 493.\<close>

definition CopyTo :: "(string \<Rightarrow> Stream \<Rightarrow> int \<Rightarrow> int \<Rightarrow> error + byte list)
    \<Rightarrow> Container \<Rightarrow> Stream \<Rightarrow> string \<Rightarrow> event list \<Rightarrow> error option go \<times> event list" where
  "CopyTo tarFile c stream path tr =
     (case tarFile path stream (Size stream) 493 of
        Inl err \<Rightarrow> (Return (Some err), tr)
      | Inr tar \<Rightarrow>
          (case ExtractTo c (Some tar) ''/'' tr of
             (Some err, tr1) \<Rightarrow> (Return (Some err), tr1)
           | (None, tr1) \<Rightarrow> Stream_Close stream tr1))"

text \<open>\<open>path.Base\<close> of the Go library:
  \<^verbatim>\<open>
func Base(path string) string {
	if path == "" {
		return "."
	}
	// Strip trailing slashes.
	for len(path) > 0 && path[len(path)-1] == '/' {
		path = path[0 : len(path)-1]
	}
	// Find the last element
	if i := strings.LastIndex(path, "/"); i >= 0 {
		path = path[i+1:]
	}
	// If empty now, it had only slashes.
	if path == "" {
		return "/"
	}
	return path
}\<close>\<close>

definition Base :: "string \<Rightarrow> string" where
  "Base path =
     (if path = [] then ''.''
      else let stripped = rev (dropWhile (\<lambda>ch. ch = CHR ''/'') (rev path));
               last_elem = rev (takeWhile (\<lambda>ch. ch \<noteq> CHR ''/'') (rev stripped))
           in if last_elem = [] then ''/'' else last_elem)"

text \<open>\<^verbatim>\<open>
func fileFromTar(name string, archive io.Reader) (file io.Reader, header *tar.Header, err error) {
	tarball := tar.NewReader(archive)
	for {
		header, err = tarball.Next()
		if err != nil {
			return nil, nil, err
		}
		if header.Name == name {
			break
		}
	}
	return tarball, header, nil
}\<close>
  \<open>nextEntries\<close> is the loop over what \<open>Next()\<close> still has to return; the file
  returned is the reader standing at the entry found, given by the bytes it yields.\<close>

fun nextEntries :: "string \<Rightarrow> tar_entry list \<Rightarrow> error \<Rightarrow> error + (byte list \<times> tar_entry)" where
  "nextEntries name [] end_err = Inl end_err"
| "nextEntries name (header # rest) end_err =
     (if Name header = name then Inr (Data header, header) else nextEntries name rest end_err)"

definition fileFromTar :: "string \<Rightarrow> archive \<Rightarrow> error + (byte list \<times> tar_entry)" where
  "fileFromTar name a = nextEntries name (entries a) (ending a)"

text \<open>\<^verbatim>\<open>
func (c *Container) CopyFrom(path string) (Stream, error) {
	ctx := context.Background()
	tar, stat, err := c.Docker.CopyFromContainer(ctx, c.ID, path)
	if err != nil {
		return Stream{}, err
	}
	reader, _, err := fileFromTar(gopath.Base(path), tar)
	if err != nil {
		tar.Close()
		return Stream{}, err
	}
	return NewStream(splitReadCloser{reader, tar}, stat.Size), nil
}\<close>\<close>

definition CopyFrom :: "Container \<Rightarrow> string \<Rightarrow> event list \<Rightarrow> (error + Stream) \<times> event list" where
  "CopyFrom c path tr =
     (let tr1 = tr @ [DockerCopyFrom (ID c) path] in
      case CopyFromContainer (Docker c) tr (ID c) path of
        Inl err \<Rightarrow> (Inl err, tr1)
      | Inr (tar, stat) \<Rightarrow>
          (case fileFromTar (Base path) tar of
             Inl err \<Rightarrow> (Inl err, snd (ReadCloser_Close (raw tar) tr1))
           | Inr (reader, header) \<Rightarrow>
               (Inr (NewStream (splitReadCloser reader (raw tar)) (StatSize stat)), tr1)))"

section \<open>Log frames, in the words of the specification\<close>






section \<open>Which container a request names\<close>

text \<open>The container id a request to the runtime names; a create request names none
  (it passes a name, and the runtime answers with the id).\<close>

fun addressee :: "event \<Rightarrow> string option" where
  "addressee (DockerRemove cid force) = Some cid"
| "addressee (DockerStart cid) = Some cid"
| "addressee (DockerLogs cid opts) = Some cid"
| "addressee (DockerWait cid) = Some cid"
| "addressee (DockerRestart cid timeout) = Some cid"
| "addressee (DockerInspect cid) = Some cid"
| "addressee (DockerCommit cid opts) = Some cid"
| "addressee (DockerCopyTo cid path) = Some cid"
| "addressee (DockerCopyFrom cid path) = Some cid"
| "addressee e = None"

definition addressedTo :: "string \<Rightarrow> event list \<Rightarrow> bool" where
  "addressedTo cid evs = list_all (\<lambda>e. addressee e = None \<or> addressee e = Some cid) evs"

text \<open>\<open>extendsBy cid tr tr'\<close>: the events \<open>tr'\<close> are the events \<open>tr\<close> and then events
  whose requests all name \<open>cid\<close>.\<close>

definition extendsBy :: "string \<Rightarrow> event list \<Rightarrow> event list \<Rightarrow> bool" where
  "extendsBy cid tr tr' = (take (length tr) tr' = tr \<and> addressedTo cid (drop (length tr) tr'))"

text \<open>The restart requests among the events.\<close>

fun isRestart :: "event \<Rightarrow> bool" where
  "isRestart (DockerRestart cid timeout) = True"
| "isRestart e = False"

section \<open>An example environment\<close>

text \<open>A runtime whose every call succeeds, a clock that knows one time stamp, and a
  handle on the container \<open>4f2a\<close>; the examples below change one answer at a time.\<close>

definition demoArchive :: archive where
  "demoArchive =
     \<lparr>raw = Body 7 [1, 2, 3] None,
      entries = [\<lparr>Name = ''lib'', EntrySize = 1, Data = [9]\<rparr>,
                 \<lparr>Name = ''app'', EntrySize = 2, Data = [4, 5]\<rparr>],
      ending = EOF\<rparr>"

definition demoDocker :: docker where
  "demoDocker =
     \<lparr>ContainerCreate = (\<lambda>tr cfg hostConfig name. Inr ''4f2a''),
      ContainerRemove = (\<lambda>tr cid force. None),
      ContainerStart = (\<lambda>tr cid. None),
      ContainerLogs = (\<lambda>tr cid opts. Inr (length tr)),
      ContainerWait = (\<lambda>tr cid. (3, None)),
      ContainerRestart = (\<lambda>tr cid timeout. None),
      ContainerInspect = (\<lambda>tr cid. Inr ''1970-01-01T00:00:01Z''),
      ContainerCommit = (\<lambda>tr cid opts. (''sha256:77'', None)),
      CopyToContainer = (\<lambda>tr cid path content. None),
      CopyFromContainer = (\<lambda>tr cid path. Inr (demoArchive, \<lparr>StatName = ''app'', StatSize = 5\<rparr>))\<rparr>"

definition demoTime :: timelib where
  "demoTime =
     \<lparr>Parse = (\<lambda>s. if s = ''1970-01-01T00:00:01Z'' then Some 1000000000 else None),
      Format = (\<lambda>t. if t = 990000000 then ''1970-01-01T00:00:00.99Z''
                     else if t = - 10000000 then ''1969-12-31T23:59:59.99Z'' else ''other'')\<rparr>"

definition demoContainer :: Container where
  "demoContainer =
     \<lparr>Docker = demoDocker, Exit = Some 0, ID = ''4f2a'',
      config = \<lparr>Hostname = ''web'', Image = ''X''\<rparr>\<rparr>"

definition canceledWait :: Container where
  "canceledWait =
     demoContainer\<lparr>Docker := demoDocker\<lparr>ContainerWait :=
       (\<lambda>tr cid. (0, Some (Err ''error during connect: context canceled'')))\<rparr>\<rparr>"

definition loopState :: start_state where
  "loopState =
     \<lparr>trace = [DockerStart ''4f2a'', DockerLogs ''4f2a'' firstLogs, SendSrc 1],
      exitFired = False, watching = True, restartNil = False, srcVar = Some 1\<rparr>"

definition restartFlaky :: Container where
  "restartFlaky =
     demoContainer\<lparr>Docker := demoDocker\<lparr>ContainerRestart :=
       (\<lambda>tr cid timeout. if DockerRestart cid timeout \<in> set tr then None
                           else Some (Err ''transient''))\<rparr>\<rparr>"

definition inspectFails :: Container where
  "inspectFails =
     demoContainer\<lparr>Docker := demoDocker\<lparr>ContainerInspect :=
       (\<lambda>tr cid. Inl (Err ''inspect: timeout''))\<rparr>\<rparr>"

definition badStartedAt :: Container where
  "badStartedAt =
     demoContainer\<lparr>Docker := demoDocker\<lparr>ContainerInspect :=
       (\<lambda>tr cid. Inr ''not a time'')\<rparr>\<rparr>"

definition logsFail :: Container where
  "logsFail =
     demoContainer\<lparr>Docker := demoDocker\<lparr>ContainerLogs :=
       (\<lambda>tr cid opts. if Since opts = [] then Inr 1 else Inl (Err ''logs: connection reset''))\<rparr>\<rparr>"




definition removeFails :: Container where
  "removeFails =
     demoContainer\<lparr>Docker := demoDocker\<lparr>ContainerRemove :=
       (\<lambda>tr cid force. Some (Err ''removal in progress''))\<rparr>\<rparr>"

definition extractFails :: Container where
  "extractFails =
     demoContainer\<lparr>Docker := demoDocker\<lparr>CopyToContainer :=
       (\<lambda>tr cid path content. Some (Err ''no space left on device''))\<rparr>\<rparr>"

definition demoTarFile :: "string \<Rightarrow> Stream \<Rightarrow> int \<Rightarrow> int \<Rightarrow> error + byte list" where
  "demoTarFile path stream sz mode =
     (case ReadCloser stream of
        None \<Rightarrow> Inl (Err ''no reader'')
      | Some rc \<Rightarrow> Inr (ReadAll rc))"

definition demoStream :: Stream where
  "demoStream = NewStream (Body 9 [4, 5] None) 2"

text \<open>A runtime whose log request after a restart fails and whose inspect reports a
  start time that does not parse; a runtime whose archive is damaged after its second
  entry.\<close>

definition reopenFailsBadTime :: Container where
  "reopenFailsBadTime =
     demoContainer\<lparr>Docker := demoDocker\<lparr>
       ContainerLogs :=
         (\<lambda>tr cid opts. if Since opts = [] then Inr 1 else Inl (Err ''logs: connection reset'')),
       ContainerInspect := (\<lambda>tr cid. Inr ''not a time'')\<rparr>\<rparr>"

definition damagedArchive :: Container where
  "damagedArchive =
     demoContainer\<lparr>Docker := demoDocker\<lparr>CopyFromContainer :=
       (\<lambda>tr cid path.
          Inr (demoArchive\<lparr>ending := Err ''archive/tar: invalid tar header''\<rparr>,
               \<lparr>StatName = ''app'', StatSize = 5\<rparr>))\<rparr>\<rparr>"

section \<open>Properties of Start\<close>

lemma isErrCanceled_None: "\<not> isErrCanceled None"
  by (simp add: isErrCanceled_def)

lemma normalizeCanceled_not_canceled: "\<not> isErrCanceled (snd (normalizeCanceled r))"
  by (simp add: normalizeCanceled_def isErrCanceled_None)

lemma normalizeCanceled_canceled: "isErrCanceled (snd r) \<Longrightarrow> normalizeCanceled r = (128, None)"
  by (simp add: normalizeCanceled_def)

lemma fire_srcVar: "srcVar (fire c s) = srcVar s"
  by (simp add: fire_def)

lemma fire_restartNil: "restartNil (fire c s) = restartNil s"
  by (simp add: fire_def)

lemma watcher_srcVar: "srcVar (watcher s) = srcVar s"
  by (simp add: watcher_def)

lemma watcher_restartNil: "restartNil s \<Longrightarrow> restartNil (watcher s)"
  by (simp add: watcher_def)

lemma background_srcVar: "srcVar (fst (background c s sch)) = srcVar s"
  by (induction c s sch rule: background.induct) (simp_all add: fire_srcVar watcher_srcVar)

lemma background_restartNil: "restartNil s \<Longrightarrow> restartNil (fst (background c s sch))"
  by (induction c s sch rule: background.induct) (simp_all add: fire_restartNil watcher_restartNil)

lemma return_late_Return:
  "return_late sv tr r = (Return x, tr') \<Longrightarrow> x = normalizeCanceled r"
  by (auto simp: return_late_def split: option.splits)

lemma loop_Return:
  "loop T c s sch = Some (Return x, tr') \<Longrightarrow> x = (128, None)"
proof (induction T c s sch rule: loop.induct)
  case (5 T c s sch)
  then show ?case
    by (auto simp: normalizeCanceled_def isErrCanceled_None split: if_splits dest!: return_late_Return)
qed (auto split: if_splits sum.splits)

lemma normalizeCanceled_eq: "normalizeCanceled r = (st, err) \<Longrightarrow> \<not> isErrCanceled err"
  by (metis normalizeCanceled_not_canceled snd_conv)

lemma Start_never_canceled:
  assumes "Start T c restart sch tr = Some (Return (st, err), tr')"
  shows "\<not> isErrCanceled err"
  using assms unfolding Start_def Let_def
  by (auto simp: return_early_def isErrCanceled_None split: option.splits sum.splits prod.splits if_splits
        dest!: return_late_Return loop_Return normalizeCanceled_eq normalizeCanceled_eq[OF sym])

text \<open>
  C1. Whenever Start reaches the wait call (the restart trigger is nil at line 99) and
  the wait fails with an error that is \<open>context.Canceled\<close> or whose message ends
  with "context canceled", Start returns status 128 and a nil error, after closing the
  log source and its channels. And no call of Start, whatever the runtime answers and
  whatever the schedule, returns an error that is a cancellation.
\<close>

theorem C1_Start_cancel:
  assumes started: "ContainerStart (Docker c) tr (ID c) = None"
    and logs: "ContainerLogs (Docker c) (tr @ [DockerStart (ID c)]) (ID c) firstLogs = Inr h"
    and s: "s = fst (background c
                 \<lparr>trace = tr @ [DockerStart (ID c), DockerLogs (ID c) firstLogs, SendSrc h],
                  exitFired = False, watching = True, restartNil = (\<not> restart), srcVar = Some h\<rparr> sch)"
    and waits: "restartNil s"
    and canceled: "isErrCanceled (snd (ContainerWait (Docker c) (trace s) (ID c)))"
  shows "Start T c restart sch tr =
           Some (Return (128, None), trace s @ [DockerWait (ID c), CloseStream h, CloseSrcs, CloseDone])
         \<and> (\<forall>T' restart' sch' tr0 st err tr'.
               Start T' c restart' sch' tr0 = Some (Return (st, err), tr') \<longrightarrow> \<not> isErrCanceled err)"
proof
  have sv: "srcVar s = Some h"
    unfolding s by (simp add: background_srcVar)
  show "Start T c restart sch tr =
           Some (Return (128, None), trace s @ [DockerWait (ID c), CloseStream h, CloseSrcs, CloseDone])"
    using started logs waits sv canceled unfolding Start_def Let_def s
    by (simp add: return_late_def normalizeCanceled_canceled case_prod_beta)
  show "\<forall>T' restart' sch' tr0 st err tr'.
               Start T' c restart' sch' tr0 = Some (Return (st, err), tr') \<longrightarrow> \<not> isErrCanceled err"
    using Start_never_canceled by blast
qed

theorem C1_Start_cancel_witness:
  "Start demoTime canceledWait False [ExitFires, Watcher] [] =
     Some (Return (128, None),
       [DockerStart ''4f2a'', DockerLogs ''4f2a'' firstLogs, SendSrc 1, ExitClosed, CancelCtx,
        DockerWait ''4f2a'', CloseStream 1, CloseSrcs, CloseDone])
   \<and> isErrCanceled (Some (Err ''error during connect: context canceled''))"
proof -
  let ?s = "fst (background canceledWait
                 \<lparr>trace = [] @ [DockerStart (ID canceledWait), DockerLogs (ID canceledWait) firstLogs, SendSrc 1],
                  exitFired = False, watching = True, restartNil = (\<not> False), srcVar = Some 1\<rparr> [ExitFires, Watcher])"
  have c: "isErrCanceled (Some (Err ''error during connect: context canceled''))"
    by (simp add: isErrCanceled_def HasSuffix_def)
  have 1: "ContainerStart (Docker canceledWait) [] (ID canceledWait) = None"
    by (simp add: canceledWait_def demoContainer_def demoDocker_def)
  have 2: "ContainerLogs (Docker canceledWait) ([] @ [DockerStart (ID canceledWait)]) (ID canceledWait) firstLogs = Inr 1"
    by (simp add: canceledWait_def demoContainer_def demoDocker_def)
  have 4: "restartNil ?s"
    by (simp add: fire_def watcher_def canceledWait_def demoContainer_def)
  have 5: "isErrCanceled (snd (ContainerWait (Docker canceledWait) (trace ?s) (ID canceledWait)))"
    using c by (simp add: canceledWait_def demoContainer_def demoDocker_def)
  have t: "trace ?s = [DockerStart ''4f2a'', DockerLogs ''4f2a'' firstLogs, SendSrc 1, ExitClosed, CancelCtx]"
    by (simp add: fire_def watcher_def canceledWait_def demoContainer_def)
  from C1_Start_cancel [OF 1 2 refl 4 5, of demoTime] c t show ?thesis
    by (simp add: canceledWait_def demoContainer_def)
qed

lemma restart_body_restart_fails:
  "ContainerRestart (Docker c) (trace s) (ID c) Second = Some e \<Longrightarrow>
   restart_body T c s = Inr (s\<lparr>trace := trace s @ [DockerRestart (ID c) Second]\<rparr>)"
  by (simp add: restart_body_def)

lemma restart_body_inspect_fails:
  "ContainerRestart (Docker c) (trace s) (ID c) Second = None \<Longrightarrow>
   ContainerInspect (Docker c) (trace s @ [DockerRestart (ID c) Second]) (ID c) = Inl e \<Longrightarrow>
   restart_body T c s = Inr (s\<lparr>trace := trace s @ [DockerRestart (ID c) Second, DockerInspect (ID c)]\<rparr>)"
  by (simp add: restart_body_def)

lemma restart_body_reopen:
  assumes "ContainerRestart (Docker c) (trace s) (ID c) Second = None"
    and "ContainerInspect (Docker c) (trace s @ [DockerRestart (ID c) Second]) (ID c) = Inr StartedAt"
    and "srcVar s = Some old"
  shows "restart_body T c s =
     (let tr3 = trace s @ [DockerRestart (ID c) Second, DockerInspect (ID c), CloseStream old];
          opts = logsSince T (case Parse T StartedAt of None \<Rightarrow> 0 | Some t \<Rightarrow> t)
      in case ContainerLogs (Docker c) tr3 (ID c) opts of
           Inl err \<Rightarrow> Inr (s\<lparr>trace := tr3 @ [DockerLogs (ID c) opts], srcVar := None\<rparr>)
         | Inr new \<Rightarrow> Inr (s\<lparr>trace := tr3 @ [DockerLogs (ID c) opts, SendSrc new], srcVar := Some new\<rparr>))"
  using assms by (simp add: restart_body_def Let_def split: sum.splits)

lemma restart_body_nil_src:
  assumes "ContainerRestart (Docker c) (trace s) (ID c) Second = None"
    and "ContainerInspect (Docker c) (trace s @ [DockerRestart (ID c) Second]) (ID c) = Inr StartedAt"
    and "srcVar s = None"
  shows "restart_body T c s = Inl (trace s @ [DockerRestart (ID c) Second, DockerInspect (ID c)])"
  using assms by (simp add: restart_body_def Let_def)

lemma logsSince_Parse: "logsSince (T\<lparr>Parse := p\<rparr>) t = logsSince T t"
  by (simp add: logsSince_def)

lemma restart_body_epoch:
  assumes "ContainerRestart (Docker c) (trace s) (ID c) Second = None"
    and "ContainerInspect (Docker c) (trace s @ [DockerRestart (ID c) Second]) (ID c) = Inr StartedAt"
    and "Parse T StartedAt = None"
  shows "restart_body T c s = restart_body (T\<lparr>Parse := (Parse T)(StartedAt \<mapsto> 0)\<rparr>) c s"
  using assms by (simp add: restart_body_def Let_def logsSince_Parse split: option.splits sum.splits)

lemma Since_logsSince: "Since (logsSince T t) = Format T (t - 10000000)"
  by (simp add: logsSince_def Millisecond_def)

lemma Second_ns: "Second = 1000000000"
  by (simp add: Second_def Millisecond_def)

text \<open>
  What the loop does with the three failures. At a restart trigger that the loop takes
  (the variable \<open>restart\<close> is not nil): when the restart request fails, the loop goes
  on to the next step with nothing but the request logged; when the inspect fails,
  likewise after the inspect; when the start time does not parse, the attempt is the
  attempt a start time at the Unix epoch makes, and with a log source open it closes
  that source, asks for the logs since the epoch less 10 ms and goes on. Whatever the
  loop returns is status 128 with a nil error.
\<close>

theorem restart_errors_swallowed:
  assumes live: "\<not> restartNil s"
  shows "(\<forall>e. ContainerRestart (Docker c) (trace s) (ID c) Second = Some e \<longrightarrow>
            loop T c s (SelectRestart # sch) =
            loop T c (s\<lparr>trace := trace s @ [DockerRestart (ID c) Second]\<rparr>) sch)
       \<and> (\<forall>e. ContainerRestart (Docker c) (trace s) (ID c) Second = None \<and>
             ContainerInspect (Docker c) (trace s @ [DockerRestart (ID c) Second]) (ID c) = Inl e \<longrightarrow>
            loop T c s (SelectRestart # sch) =
            loop T c (s\<lparr>trace := trace s @ [DockerRestart (ID c) Second, DockerInspect (ID c)]\<rparr>) sch)
       \<and> (\<forall>StartedAt. ContainerRestart (Docker c) (trace s) (ID c) Second = None \<and>
             ContainerInspect (Docker c) (trace s @ [DockerRestart (ID c) Second]) (ID c) = Inr StartedAt \<and>
             Parse T StartedAt = None \<longrightarrow>
            restart_body T c s = restart_body (T\<lparr>Parse := (Parse T)(StartedAt \<mapsto> 0)\<rparr>) c s \<and>
            (\<forall>old. srcVar s = Some old \<longrightarrow>
               (\<exists>s'. restart_body T c s = Inr s' \<and>
                     loop T c s (SelectRestart # sch) = loop T c s' sch \<and>
                     take 4 (drop (length (trace s)) (trace s')) =
                       [DockerRestart (ID c) Second, DockerInspect (ID c), CloseStream old,
                        DockerLogs (ID c) (logsSince T 0)])))
       \<and> (\<forall>sch' x tr'. loop T c s sch' = Some (Return x, tr') \<longrightarrow> x = (128, None))"
proof (intro conjI allI impI)
  fix e assume "ContainerRestart (Docker c) (trace s) (ID c) Second = Some e"
  then show "loop T c s (SelectRestart # sch) =
            loop T c (s\<lparr>trace := trace s @ [DockerRestart (ID c) Second]\<rparr>) sch"
    using live by (simp add: restart_body_restart_fails)
next
  fix e assume "ContainerRestart (Docker c) (trace s) (ID c) Second = None \<and>
             ContainerInspect (Docker c) (trace s @ [DockerRestart (ID c) Second]) (ID c) = Inl e"
  then show "loop T c s (SelectRestart # sch) =
            loop T c (s\<lparr>trace := trace s @ [DockerRestart (ID c) Second, DockerInspect (ID c)]\<rparr>) sch"
    using live by (simp add: restart_body_inspect_fails)
next
  fix StartedAt
  assume a: "ContainerRestart (Docker c) (trace s) (ID c) Second = None \<and>
             ContainerInspect (Docker c) (trace s @ [DockerRestart (ID c) Second]) (ID c) = Inr StartedAt \<and>
             Parse T StartedAt = None"
  then show "restart_body T c s = restart_body (T\<lparr>Parse := (Parse T)(StartedAt \<mapsto> 0)\<rparr>) c s"
    by (simp add: restart_body_epoch)
  fix old assume "srcVar s = Some old"
  with a have r: "restart_body T c s =
     (let tr3 = trace s @ [DockerRestart (ID c) Second, DockerInspect (ID c), CloseStream old];
          opts = logsSince T 0
      in case ContainerLogs (Docker c) tr3 (ID c) opts of
           Inl err \<Rightarrow> Inr (s\<lparr>trace := tr3 @ [DockerLogs (ID c) opts], srcVar := None\<rparr>)
         | Inr new \<Rightarrow> Inr (s\<lparr>trace := tr3 @ [DockerLogs (ID c) opts, SendSrc new], srcVar := Some new\<rparr>))"
    using restart_body_reopen [of c s StartedAt old T] by simp
  show "\<exists>s'. restart_body T c s = Inr s' \<and>
                     loop T c s (SelectRestart # sch) = loop T c s' sch \<and>
                     take 4 (drop (length (trace s)) (trace s')) =
                       [DockerRestart (ID c) Second, DockerInspect (ID c), CloseStream old,
                        DockerLogs (ID c) (logsSince T 0)]"
    using live by (simp add: r Let_def split: sum.splits)
next
  fix sch' x tr' assume "loop T c s sch' = Some (Return x, tr')"
  then show "x = (128, None)" by (rule loop_Return)
qed

theorem restart_errors_swallowed_example:
  "loop demoTime restartFlaky loopState [SelectRestart, SelectRestart, ExitFires, SelectExit] =
     Some (Return (128, None),
       [DockerStart ''4f2a'', DockerLogs ''4f2a'' firstLogs, SendSrc 1,
        DockerRestart ''4f2a'' 1000000000,
        DockerRestart ''4f2a'' 1000000000, DockerInspect ''4f2a'', CloseStream 1,
        DockerLogs ''4f2a'' (logsSince demoTime 1000000000), SendSrc 7,
        ExitClosed, CloseStream 7, CloseSrcs, CloseDone])
   \<and> loop demoTime inspectFails loopState [SelectRestart, ExitFires, SelectExit] =
     Some (Return (128, None),
       [DockerStart ''4f2a'', DockerLogs ''4f2a'' firstLogs, SendSrc 1,
        DockerRestart ''4f2a'' 1000000000, DockerInspect ''4f2a'',
        ExitClosed, CloseStream 1, CloseSrcs, CloseDone])
   \<and> restart_body demoTime badStartedAt loopState =
     Inr (loopState\<lparr>trace :=
            [DockerStart ''4f2a'', DockerLogs ''4f2a'' firstLogs, SendSrc 1,
             DockerRestart ''4f2a'' 1000000000, DockerInspect ''4f2a'', CloseStream 1,
             DockerLogs ''4f2a'' (logsSince demoTime 0), SendSrc 6],
          srcVar := Some 6\<rparr>)
   \<and> Since (logsSince demoTime 0) = ''1969-12-31T23:59:59.99Z''"
proof -
  have live: "\<not> restartNil loopState"
    by (simp add: loopState_def)
  have id: "ID restartFlaky = ''4f2a''" "ID inspectFails = ''4f2a''" "ID badStartedAt = ''4f2a''"
    by (simp_all add: restartFlaky_def inspectFails_def badStartedAt_def demoContainer_def)
  have "ContainerRestart (Docker restartFlaky) (trace loopState) (ID restartFlaky) Second
          = Some (Err ''transient'')"
    by (simp add: restartFlaky_def demoContainer_def demoDocker_def loopState_def)
  with restart_errors_swallowed [OF live, of restartFlaky demoTime "[SelectRestart, ExitFires, SelectExit]"]
  have "loop demoTime restartFlaky loopState [SelectRestart, SelectRestart, ExitFires, SelectExit] =
        loop demoTime restartFlaky
          (loopState\<lparr>trace := trace loopState @ [DockerRestart (ID restartFlaky) Second]\<rparr>)
          [SelectRestart, ExitFires, SelectExit]"
    by blast
  then have 1: "loop demoTime restartFlaky loopState [SelectRestart, SelectRestart, ExitFires, SelectExit] =
     Some (Return (128, None),
       [DockerStart ''4f2a'', DockerLogs ''4f2a'' firstLogs, SendSrc 1,
        DockerRestart ''4f2a'' 1000000000,
        DockerRestart ''4f2a'' 1000000000, DockerInspect ''4f2a'', CloseStream 1,
        DockerLogs ''4f2a'' (logsSince demoTime 1000000000), SendSrc 7,
        ExitClosed, CloseStream 7, CloseSrcs, CloseDone])"
    by (simp add: restartFlaky_def demoContainer_def demoDocker_def demoTime_def loopState_def
        restart_body_def fire_def return_late_def normalizeCanceled_def isErrCanceled_None
        Second_def Millisecond_def logsSince_def)
  have "ContainerRestart (Docker inspectFails) (trace loopState) (ID inspectFails) Second = None \<and>
        ContainerInspect (Docker inspectFails)
          (trace loopState @ [DockerRestart (ID inspectFails) Second]) (ID inspectFails)
          = Inl (Err ''inspect: timeout'')"
    by (simp add: inspectFails_def demoContainer_def demoDocker_def)
  with restart_errors_swallowed [OF live, of inspectFails demoTime "[ExitFires, SelectExit]"]
  have "loop demoTime inspectFails loopState [SelectRestart, ExitFires, SelectExit] =
        loop demoTime inspectFails
          (loopState\<lparr>trace := trace loopState @
             [DockerRestart (ID inspectFails) Second, DockerInspect (ID inspectFails)]\<rparr>)
          [ExitFires, SelectExit]"
    by blast
  then have 2: "loop demoTime inspectFails loopState [SelectRestart, ExitFires, SelectExit] =
     Some (Return (128, None),
       [DockerStart ''4f2a'', DockerLogs ''4f2a'' firstLogs, SendSrc 1,
        DockerRestart ''4f2a'' 1000000000, DockerInspect ''4f2a'',
        ExitClosed, CloseStream 1, CloseSrcs, CloseDone])"
    by (simp add: inspectFails_def demoContainer_def loopState_def
        fire_def return_late_def normalizeCanceled_def isErrCanceled_None Second_def Millisecond_def)
  have "ContainerRestart (Docker badStartedAt) (trace loopState) (ID badStartedAt) Second = None \<and>
        ContainerInspect (Docker badStartedAt)
          (trace loopState @ [DockerRestart (ID badStartedAt) Second]) (ID badStartedAt)
          = Inr ''not a time'' \<and> Parse demoTime ''not a time'' = None"
    by (simp add: badStartedAt_def demoContainer_def demoDocker_def demoTime_def)
  with restart_errors_swallowed [OF live, of badStartedAt demoTime "[]"]
  have "restart_body demoTime badStartedAt loopState =
        restart_body (demoTime\<lparr>Parse := (Parse demoTime)(''not a time'' \<mapsto> 0)\<rparr>) badStartedAt loopState"
    by blast
  then have 3: "restart_body demoTime badStartedAt loopState =
     Inr (loopState\<lparr>trace :=
            [DockerStart ''4f2a'', DockerLogs ''4f2a'' firstLogs, SendSrc 1,
             DockerRestart ''4f2a'' 1000000000, DockerInspect ''4f2a'', CloseStream 1,
             DockerLogs ''4f2a'' (logsSince demoTime 0), SendSrc 6],
          srcVar := Some 6\<rparr>)"
    by (simp add: badStartedAt_def demoContainer_def demoDocker_def loopState_def
        restart_body_def Second_def Millisecond_def logsSince_def demoTime_def)
  have 4: "Since (logsSince demoTime 0) = ''1969-12-31T23:59:59.99Z''"
    by (simp add: logsSince_def demoTime_def Millisecond_def)
  from 1 2 3 4 show ?thesis by blast
qed

text \<open>
  C3. A run of Start with a restart trigger that fires twice. At the first firing the
  restart and the inspect succeed and the log request fails, which leaves \<open>src\<close>
  nil (line 119). At the second the restart and the inspect succeed and the start
  time does not parse: the fallback to the epoch of line 116 is followed by
  \<open>src.Close()\<close> on the nil \<open>src\<close> (line 118), and Start panics where the loop was
  to go on to the next trigger.
\<close>

theorem C3_unparsable_panics:
  "Parse demoTime ''not a time'' = None
   \<and> Start demoTime reopenFailsBadTime True [SelectRestart, SelectRestart] [] =
     Some (Panic,
       [DockerStart ''4f2a'', DockerLogs ''4f2a'' firstLogs, SendSrc 1,
        DockerRestart ''4f2a'' 1000000000, DockerInspect ''4f2a'', CloseStream 1,
        DockerLogs ''4f2a'' (logsSince demoTime 0),
        DockerRestart ''4f2a'' 1000000000, DockerInspect ''4f2a'',
        CloseSrcs, CloseDone])"
  by (simp add: Start_def reopenFailsBadTime_def demoContainer_def demoDocker_def restart_body_def
      Second_def Millisecond_def logsSince_def demoTime_def firstLogs_def)

text \<open>
  C4 (amended). At a restart trigger the loop takes, with a log source open, a restart
  request with a grace period of one second that succeeds and an inspect that
  succeeds: the loop closes the open source, then asks for the logs with
  \<open>Since\<close> the start time less 10 ms (the epoch for a start time that does not
  parse); when that request succeeds the new source is sent to \<open>copyStreams\<close> and
  becomes the source to close next; when it fails nothing is sent. Either way the loop
  goes on to the next step.
\<close>

theorem C4_reopen_logs:
  assumes live: "\<not> restartNil s"
    and restarted: "ContainerRestart (Docker c) (trace s) (ID c) Second = None"
    and inspected: "ContainerInspect (Docker c) (trace s @ [DockerRestart (ID c) Second]) (ID c) = Inr StartedAt"
    and old: "srcVar s = Some old"
    and startedAt: "startedAt = (case Parse T StartedAt of None \<Rightarrow> 0 | Some t \<Rightarrow> t)"
    and tr3: "tr3 = trace s @ [DockerRestart (ID c) Second, DockerInspect (ID c), CloseStream old]"
  shows "Second = 1000000000 \<and>
         Since (logsSince T startedAt) = Format T (startedAt - 10000000) \<and>
         (\<exists>s'. restart_body T c s = Inr s' \<and>
               loop T c s (SelectRestart # sch) = loop T c s' sch \<and>
               trace s' = tr3 @ [DockerLogs (ID c) (logsSince T startedAt)] @
                 (case ContainerLogs (Docker c) tr3 (ID c) (logsSince T startedAt) of
                    Inl err \<Rightarrow> [] | Inr new \<Rightarrow> [SendSrc new]) \<and>
               (\<forall>new. ContainerLogs (Docker c) tr3 (ID c) (logsSince T startedAt) = Inr new
                   \<longrightarrow> srcVar s' = Some new))"
proof (intro conjI)
  show "Second = 1000000000" by (rule Second_ns)
  show "Since (logsSince T startedAt) = Format T (startedAt - 10000000)" by (rule Since_logsSince)
  have r: "restart_body T c s =
     (case ContainerLogs (Docker c) tr3 (ID c) (logsSince T startedAt) of
        Inl err \<Rightarrow> Inr (s\<lparr>trace := tr3 @ [DockerLogs (ID c) (logsSince T startedAt)], srcVar := None\<rparr>)
      | Inr new \<Rightarrow> Inr (s\<lparr>trace := tr3 @ [DockerLogs (ID c) (logsSince T startedAt), SendSrc new],
                           srcVar := Some new\<rparr>))"
    using restart_body_reopen [OF restarted inspected old, of T]
    by (simp add: startedAt tr3 Let_def split: sum.splits)
  show "\<exists>s'. restart_body T c s = Inr s' \<and>
               loop T c s (SelectRestart # sch) = loop T c s' sch \<and>
               trace s' = tr3 @ [DockerLogs (ID c) (logsSince T startedAt)] @
                 (case ContainerLogs (Docker c) tr3 (ID c) (logsSince T startedAt) of
                    Inl err \<Rightarrow> [] | Inr new \<Rightarrow> [SendSrc new]) \<and>
               (\<forall>new. ContainerLogs (Docker c) tr3 (ID c) (logsSince T startedAt) = Inr new
                   \<longrightarrow> srcVar s' = Some new)"
    using live by (simp add: r split: sum.splits)
qed

theorem C4_reopen_logs_witness:
  "restart_body demoTime demoContainer loopState =
     Inr (loopState\<lparr>trace :=
            [DockerStart ''4f2a'', DockerLogs ''4f2a'' firstLogs, SendSrc 1,
             DockerRestart ''4f2a'' 1000000000, DockerInspect ''4f2a'', CloseStream 1,
             DockerLogs ''4f2a'' (logsSince demoTime 1000000000), SendSrc 6],
          srcVar := Some 6\<rparr>)
   \<and> Since (logsSince demoTime 1000000000) = ''1970-01-01T00:00:00.99Z''"
proof -
  have live: "\<not> restartNil loopState"
    by (simp add: loopState_def)
  have 1: "ContainerRestart (Docker demoContainer) (trace loopState) (ID demoContainer) Second = None"
    by (simp add: demoContainer_def demoDocker_def)
  have 2: "ContainerInspect (Docker demoContainer)
             (trace loopState @ [DockerRestart (ID demoContainer) Second]) (ID demoContainer)
           = Inr ''1970-01-01T00:00:01Z''"
    by (simp add: demoContainer_def demoDocker_def)
  have 3: "srcVar loopState = Some 1"
    by (simp add: loopState_def)
  have 4: "(1000000000::int) = (case Parse demoTime ''1970-01-01T00:00:01Z'' of None \<Rightarrow> 0 | Some t \<Rightarrow> t)"
    by (simp add: demoTime_def)
  have 5: "ContainerLogs (Docker demoContainer)
             (trace loopState @ [DockerRestart (ID demoContainer) Second, DockerInspect (ID demoContainer),
                CloseStream 1]) (ID demoContainer) (logsSince demoTime 1000000000) = Inr 6"
    by (simp add: demoContainer_def demoDocker_def loopState_def)
  note th = C4_reopen_logs [OF live 1 2 3 4 refl, of "[]"]
  from th have since: "Since (logsSince demoTime 1000000000) = Format demoTime (1000000000 - 10000000)"
    by blast
  from th [THEN conjunct2, THEN conjunct2] obtain s'
    where body: "restart_body demoTime demoContainer loopState = Inr s'"
      and tr: "trace s' = (trace loopState @ [DockerRestart (ID demoContainer) Second,
           DockerInspect (ID demoContainer), CloseStream 1]) @
         [DockerLogs (ID demoContainer) (logsSince demoTime 1000000000)] @
         (case ContainerLogs (Docker demoContainer)
             (trace loopState @ [DockerRestart (ID demoContainer) Second, DockerInspect (ID demoContainer),
                CloseStream 1]) (ID demoContainer) (logsSince demoTime 1000000000) of
            Inl err \<Rightarrow> [] | Inr new \<Rightarrow> [SendSrc new])"
      and sv: "\<forall>new. ContainerLogs (Docker demoContainer)
             (trace loopState @ [DockerRestart (ID demoContainer) Second, DockerInspect (ID demoContainer),
                CloseStream 1]) (ID demoContainer) (logsSince demoTime 1000000000) = Inr new
            \<longrightarrow> srcVar s' = Some new"
    by blast
  from sv 5 have sv': "srcVar s' = Some 6" by blast
  have shape: "s' = loopState\<lparr>trace := trace s', srcVar := srcVar s'\<rparr>"
    using body by (auto simp: restart_body_def Let_def split: option.splits sum.splits)
  have "s' = loopState\<lparr>trace :=
            [DockerStart ''4f2a'', DockerLogs ''4f2a'' firstLogs, SendSrc 1,
             DockerRestart ''4f2a'' 1000000000, DockerInspect ''4f2a'', CloseStream 1,
             DockerLogs ''4f2a'' (logsSince demoTime 1000000000), SendSrc 6],
          srcVar := Some 6\<rparr>"
    by (subst shape, simp only: tr 5 sv')
       (simp add: loopState_def demoContainer_def Second_def Millisecond_def)
  with body since show ?thesis
    by (simp add: demoTime_def)
qed

text \<open>
  C4 as stated fails where the log request after the restart fails: the restart and
  the inspect succeed, the old source is closed, and no source is sent.
\<close>

theorem C4_push_counterexample:
  "ContainerRestart (Docker logsFail) (trace loopState) (ID logsFail) Second = None
   \<and> ContainerInspect (Docker logsFail) (trace loopState @ [DockerRestart (ID logsFail) Second])
         (ID logsFail) = Inr ''1970-01-01T00:00:01Z''
   \<and> restart_body demoTime logsFail loopState =
     Inr (loopState\<lparr>trace :=
            [DockerStart ''4f2a'', DockerLogs ''4f2a'' firstLogs, SendSrc 1,
             DockerRestart ''4f2a'' 1000000000, DockerInspect ''4f2a'', CloseStream 1,
             DockerLogs ''4f2a'' (logsSince demoTime 1000000000)],
          srcVar := None\<rparr>)"
  by (simp add: logsFail_def demoContainer_def demoDocker_def loopState_def restart_body_def
      Second_def Millisecond_def logsSince_def demoTime_def)

text \<open>
  C2. Two runs of Start with a restart trigger. In the first the exit channel is
  closed and, before the watcher has run, the \<open>select\<close> of the loop finds a value on
  \<open>restart\<close> as well and takes it: a restart is requested after the exit signal. In
  the second a log request after a restart fails, \<open>src\<close> is nil from then on, and the
  \<open>return 128, nil\<close> of the exit case panics in the deferred \<open>src.Close()\<close>.
\<close>

theorem C2_restart_after_exit:
  "Start demoTime demoContainer True [ExitFires, SelectRestart, Watcher, SelectRestart, SelectExit] [] =
     Some (Return (128, None),
       [DockerStart ''4f2a'', DockerLogs ''4f2a'' firstLogs, SendSrc 1, ExitClosed,
        DockerRestart ''4f2a'' 1000000000, DockerInspect ''4f2a'', CloseStream 1,
        DockerLogs ''4f2a'' (logsSince demoTime 1000000000), SendSrc 7,
        CancelCtx, CloseStream 7, CloseSrcs, CloseDone])
   \<and> Start demoTime logsFail True [SelectRestart, ExitFires, Watcher, SelectExit] [] =
     Some (Panic,
       [DockerStart ''4f2a'', DockerLogs ''4f2a'' firstLogs, SendSrc 1,
        DockerRestart ''4f2a'' 1000000000, DockerInspect ''4f2a'', CloseStream 1,
        DockerLogs ''4f2a'' (logsSince demoTime 1000000000),
        ExitClosed, CancelCtx, CloseSrcs, CloseDone])"
  by (simp add: Start_def logsFail_def demoContainer_def demoDocker_def restart_body_def
      fire_def watcher_def return_late_def normalizeCanceled_def isErrCanceled_None
      Second_def Millisecond_def logsSince_def demoTime_def firstLogs_def)

subsection \<open>What the exit signal does guarantee\<close>

text \<open>Once the exit channel is closed, the exit case of the loop's \<open>select\<close> returns
  status 128 and a nil error, provided a log source is open.\<close>

lemma loop_SelectExit:
  "exitFired s \<Longrightarrow> srcVar s = Some h \<Longrightarrow>
   loop T c s (SelectExit # sch) =
     Some (Return (128, None), trace s @ [CloseStream h, CloseSrcs, CloseDone])"
  by (simp add: return_late_def normalizeCanceled_def isErrCanceled_None)

text \<open>Once the watcher has seen the exit signal, \<open>restart\<close> is nil and stays nil, and
  no further restart is requested.\<close>

lemma watcher_sets_nil: "watching s \<Longrightarrow> exitFired s \<Longrightarrow> restartNil (watcher s)"
  by (simp add: watcher_def)

lemma loop_no_restart_when_nil:
  "restartNil s \<Longrightarrow> loop T c s sch = Some (r, tr') \<Longrightarrow>
   filter isRestart tr' = filter isRestart (trace s)"
proof (induction T c s sch rule: loop.induct)
  case (2 T c s sch)
  then show ?case by (simp add: fire_def split: if_splits)
next
  case (3 T c s sch)
  then show ?case by (simp add: watcher_def split: if_splits)
next
  case (5 T c s sch)
  then show ?case by (auto simp: return_late_def split: if_splits option.splits)
qed simp_all

section \<open>Properties of the log multiplexer\<close>



















section \<open>Properties of streams and file copy\<close>

lemma closeWrapper_Close:
  "ReadCloser_Close (closeWrapper rc (Close c)) tr =
     (if fst (ReadCloser_Close rc tr) = None
      then ContainerRemove (Docker c) (snd (ReadCloser_Close rc tr)) (ID c) True
      else fst (ReadCloser_Close rc tr),
      snd (ReadCloser_Close rc tr) @ [DockerRemove (ID c) True])"
  by (simp add: Close_def split: prod.splits)

text \<open>
  C6. With a nil stream or a nil reader \<open>CloseAfterStream\<close> removes the container at
  once and returns what the removal returns. Otherwise it calls nothing, returns nil,
  and leaves in the stream a reader that reads as the old one and whose \<open>Close\<close>
  first closes the old reader, then always removes the container, once, and returns
  the old reader's error when there is one, the removal's otherwise.
\<close>

theorem C6_CloseAfterStream:
  "CloseAfterStream c None tr =
     ((ContainerRemove (Docker c) tr (ID c) True, None), tr @ [DockerRemove (ID c) True])
   \<and> (ReadCloser st = None \<longrightarrow>
        CloseAfterStream c (Some st) tr =
          ((ContainerRemove (Docker c) tr (ID c) True, Some st), tr @ [DockerRemove (ID c) True]))
   \<and> (\<forall>rc. ReadCloser st = Some rc \<longrightarrow>
        CloseAfterStream c (Some st) tr =
          ((None, Some (st\<lparr>ReadCloser := Some (closeWrapper rc (Close c))\<rparr>)), tr) \<and>
        ReadAll (closeWrapper rc (Close c)) = ReadAll rc \<and>
        (\<forall>tr1. snd (ReadCloser_Close (closeWrapper rc (Close c)) tr1) =
                 snd (ReadCloser_Close rc tr1) @ [DockerRemove (ID c) True] \<and>
               fst (ReadCloser_Close (closeWrapper rc (Close c)) tr1) =
                 (case fst (ReadCloser_Close rc tr1) of
                    Some err \<Rightarrow> Some err
                  | None \<Rightarrow> ContainerRemove (Docker c) (snd (ReadCloser_Close rc tr1)) (ID c) True)))"
  by (auto simp: CloseAfterStream_def Close_def case_prod_beta split: option.splits)

theorem C6_CloseAfterStream_witness:
  "CloseAfterStream removeFails (Some \<lparr>ReadCloser = None, Size = 0\<rparr>) [] =
     ((Some (Err ''removal in progress''), Some \<lparr>ReadCloser = None, Size = 0\<rparr>),
      [DockerRemove ''4f2a'' True])
   \<and> CloseAfterStream removeFails (Some (NewStream (Body 3 [1, 2] (Some (Err ''closed pipe''))) 2)) [] =
     ((None, Some (NewStream (closeWrapper (Body 3 [1, 2] (Some (Err ''closed pipe''))) (Close removeFails)) 2)), [])
   \<and> ReadCloser_Close (closeWrapper (Body 3 [1, 2] (Some (Err ''closed pipe''))) (Close removeFails)) [] =
     (Some (Err ''closed pipe''), [CloseStream 3, DockerRemove ''4f2a'' True])
   \<and> ReadCloser_Close (closeWrapper (Body 3 [1, 2] None) (Close removeFails)) [] =
     (Some (Err ''removal in progress''), [CloseStream 3, DockerRemove ''4f2a'' True])"
proof -
  have id: "ID removeFails = ''4f2a''"
    by (simp add: removeFails_def demoContainer_def)
  have rm: "\<And>tr. ContainerRemove (Docker removeFails) tr ''4f2a'' True = Some (Err ''removal in progress'')"
    by (simp add: removeFails_def demoContainer_def)
  note a = C6_CloseAfterStream [of removeFails "[]" "\<lparr>ReadCloser = None, Size = 0\<rparr>"]
  note b = C6_CloseAfterStream [of removeFails "[]" "NewStream (Body 3 [1, 2] (Some (Err ''closed pipe''))) 2"]
  note c = C6_CloseAfterStream [of removeFails "[]" "NewStream (Body 3 [1, 2] None) 2"]
  from a have 1: "CloseAfterStream removeFails (Some \<lparr>ReadCloser = None, Size = 0\<rparr>) [] =
     ((Some (Err ''removal in progress''), Some \<lparr>ReadCloser = None, Size = 0\<rparr>),
      [DockerRemove ''4f2a'' True])"
    by (simp add: id rm)
  from b have 2: "CloseAfterStream removeFails (Some (NewStream (Body 3 [1, 2] (Some (Err ''closed pipe''))) 2)) [] =
     ((None, Some (NewStream (closeWrapper (Body 3 [1, 2] (Some (Err ''closed pipe''))) (Close removeFails)) 2)), [])"
    by (simp add: NewStream_def)
  have rb: "ReadCloser (NewStream (Body 3 [1, 2] (Some (Err ''closed pipe''))) 2) =
              Some (Body 3 [1, 2] (Some (Err ''closed pipe'')))"
    and rc: "ReadCloser (NewStream (Body 3 [1, 2] None) 2) = Some (Body 3 [1, 2] None)"
    by (simp_all add: NewStream_def)
  from b [THEN conjunct2, THEN conjunct2, rule_format, OF rb,
          THEN conjunct2, THEN conjunct2, rule_format, of "[]"]
  have 3: "ReadCloser_Close (closeWrapper (Body 3 [1, 2] (Some (Err ''closed pipe''))) (Close removeFails)) [] =
     (Some (Err ''closed pipe''), [CloseStream 3, DockerRemove ''4f2a'' True])"
    by (simp add: prod_eq_iff id)
  from c [THEN conjunct2, THEN conjunct2, rule_format, OF rc,
          THEN conjunct2, THEN conjunct2, rule_format, of "[]"]
  have 4: "ReadCloser_Close (closeWrapper (Body 3 [1, 2] None) (Close removeFails)) [] =
     (Some (Err ''removal in progress''), [CloseStream 3, DockerRemove ''4f2a'' True])"
    by (simp add: prod_eq_iff id rm)
  from 1 2 3 4 show ?thesis by blast
qed

lemma nextEntries_none:
  "\<forall>e\<in>set es. Name e \<noteq> name \<Longrightarrow> nextEntries name es end_err = Inl end_err"
  by (induction es) simp_all

lemma nextEntries_found:
  "\<forall>x\<in>set pre. Name x \<noteq> name \<Longrightarrow> Name e = name \<Longrightarrow>
   nextEntries name (pre @ e # post) end_err = Inr (Data e, e)"
  by (induction pre) simp_all

lemma nextEntries_Inl_iff:
  "nextEntries name es end_err = Inl err \<longleftrightarrow> (\<forall>e\<in>set es. Name e \<noteq> name) \<and> err = end_err"
  by (induction es) auto

text \<open>
  C7 (amended). When the runtime hands out an archive for the path, the entries are
  tried in order: with no entry named \<open>Base path\<close> before the archive ends,
  \<open>CopyFrom\<close> fails with the error the archive reader ended on, \<open>io.EOF\<close> for an
  archive that ends as it should and the reader's own error for a damaged one; with a
  first entry of that name, it returns a stream whose bytes are that entry's, whose
  \<open>Close\<close> is the \<open>Close\<close> of the archive stream and nothing else, and whose size
  is the size in the runtime's stat of the path, whatever size the entry's header has.
\<close>

theorem C7_CopyFrom:
  assumes "CopyFromContainer (Docker c) tr (ID c) path = Inr (tar, stat)"
  shows "((\<forall>e\<in>set (entries tar). Name e \<noteq> Base path) \<longrightarrow>
            fst (CopyFrom c path tr) = Inl (ending tar))
       \<and> (\<forall>pre e post.
             entries tar = pre @ e # post \<and> (\<forall>x\<in>set pre. Name x \<noteq> Base path) \<and>
             Name e = Base path \<longrightarrow>
             CopyFrom c path tr =
               (Inr \<lparr>ReadCloser = Some (splitReadCloser (Data e) (raw tar)), Size = StatSize stat\<rparr>,
                tr @ [DockerCopyFrom (ID c) path]) \<and>
             ReadAll (splitReadCloser (Data e) (raw tar)) = Data e \<and>
             (\<forall>tr1. ReadCloser_Close (splitReadCloser (Data e) (raw tar)) tr1 =
                    ReadCloser_Close (raw tar) tr1))"
  using assms
  by (auto simp: CopyFrom_def fileFromTar_def nextEntries_none nextEntries_found NewStream_def)

theorem C7_CopyFrom_witness:
  "CopyFrom demoContainer ''/home/vcap/app/'' [] =
     (Inr \<lparr>ReadCloser = Some (splitReadCloser [4, 5] (Body 7 [1, 2, 3] None)), Size = 5\<rparr>,
      [DockerCopyFrom ''4f2a'' ''/home/vcap/app/''])
   \<and> fst (CopyFrom demoContainer ''/tmp/droplet'' []) = Inl EOF
   \<and> ReadCloser_Close (splitReadCloser [4, 5] (Body 7 [1, 2, 3] None)) [] = (None, [CloseStream 7])"
proof -
  have base: "Base ''/home/vcap/app/'' = ''app''" "Base ''/tmp/droplet'' = ''droplet''"
    by (simp_all add: Base_def)
  have 1: "CopyFromContainer (Docker demoContainer) [] (ID demoContainer) ''/home/vcap/app/'' =
           Inr (demoArchive, \<lparr>StatName = ''app'', StatSize = 5\<rparr>)"
    and 2: "CopyFromContainer (Docker demoContainer) [] (ID demoContainer) ''/tmp/droplet'' =
           Inr (demoArchive, \<lparr>StatName = ''app'', StatSize = 5\<rparr>)"
    by (simp_all add: demoContainer_def demoDocker_def)
  have found: "entries demoArchive =
      [\<lparr>Name = ''lib'', EntrySize = 1, Data = [9]\<rparr>] @ \<lparr>Name = ''app'', EntrySize = 2, Data = [4, 5]\<rparr> # [] \<and>
      (\<forall>x\<in>set [\<lparr>Name = ''lib'', EntrySize = 1, Data = [9 :: byte]\<rparr>]. Name x \<noteq> Base ''/home/vcap/app/'') \<and>
      Name \<lparr>Name = ''app'', EntrySize = 2, Data = [4, 5 :: byte]\<rparr> = Base ''/home/vcap/app/''"
    by (simp add: demoArchive_def base)
  have missing: "\<forall>e\<in>set (entries demoArchive). Name e \<noteq> Base ''/tmp/droplet''"
    by (simp add: demoArchive_def base)
  from C7_CopyFrom [OF 1, THEN conjunct2, rule_format, OF found]
  have a: "CopyFrom demoContainer ''/home/vcap/app/'' [] =
     (Inr \<lparr>ReadCloser = Some (splitReadCloser [4, 5] (Body 7 [1, 2, 3] None)), Size = 5\<rparr>,
      [DockerCopyFrom ''4f2a'' ''/home/vcap/app/''])"
    and c: "ReadCloser_Close (splitReadCloser [4, 5] (Body 7 [1, 2, 3] None)) [] = (None, [CloseStream 7])"
    by (simp_all add: demoArchive_def demoContainer_def)
  from C7_CopyFrom [OF 2, THEN conjunct1, THEN mp, OF missing]
  have b: "fst (CopyFrom demoContainer ''/tmp/droplet'' []) = Inl EOF"
    by (simp add: demoArchive_def)
  from a b c show ?thesis by blast
qed

text \<open>
  C7 as stated fails: with no entry named \<open>droplet\<close> in an archive that ends as it
  should, the error returned is \<open>io.EOF\<close>, the reader's end of input, and in a damaged
  archive it is the reader's header error; neither is a not-found error, and the code
  has none. Closing the stream of a found entry closes the archive stream and does
  nothing for the entry reader.
\<close>

theorem C7_not_found_counterexample:
  "CopyFrom demoContainer ''/tmp/droplet'' [] =
     (Inl EOF, [DockerCopyFrom ''4f2a'' ''/tmp/droplet'', CloseStream 7])
   \<and> Error EOF = ''EOF''
   \<and> CopyFrom damagedArchive ''/tmp/droplet'' [] =
     (Inl (Err ''archive/tar: invalid tar header''),
      [DockerCopyFrom ''4f2a'' ''/tmp/droplet'', CloseStream 7])
   \<and> fst (CopyFrom demoContainer ''/home/vcap/app'' []) =
     Inr \<lparr>ReadCloser = Some (splitReadCloser [4, 5] (Body 7 [1, 2, 3] None)), Size = 5\<rparr>
   \<and> ReadCloser_Close (splitReadCloser [4, 5] (Body 7 [1, 2, 3] None)) [] = (None, [CloseStream 7])"
  by (simp add: CopyFrom_def fileFromTar_def Base_def NewStream_def damagedArchive_def
      demoContainer_def demoDocker_def demoArchive_def)

text \<open>
  C10. When the runtime hands out an archive and no entry before its end is named
  \<open>Base path\<close>, \<open>CopyFrom\<close> closes the archive stream after the copy request and
  then returns the error: for a stream of the runtime the events are the request and
  the close of that stream.
\<close>

theorem C10_CopyFrom_closes_archive:
  assumes "CopyFromContainer (Docker c) tr (ID c) path = Inr (tar, stat)"
    and "\<forall>e\<in>set (entries tar). Name e \<noteq> Base path"
  shows "CopyFrom c path tr =
           (Inl (ending tar), snd (ReadCloser_Close (raw tar) (tr @ [DockerCopyFrom (ID c) path])))
       \<and> (\<forall>h bytes err. raw tar = Body h bytes err \<longrightarrow>
             snd (CopyFrom c path tr) = tr @ [DockerCopyFrom (ID c) path, CloseStream h])"
  using assms
  by (auto simp: CopyFrom_def fileFromTar_def nextEntries_none)

theorem C10_CopyFrom_closes_archive_witness:
  "CopyFrom demoContainer ''/tmp/droplet'' [] =
     (Inl EOF, [DockerCopyFrom ''4f2a'' ''/tmp/droplet'', CloseStream 7])"
proof -
  have base: "Base ''/tmp/droplet'' = ''droplet''"
    by (simp add: Base_def)
  have 1: "CopyFromContainer (Docker demoContainer) [] (ID demoContainer) ''/tmp/droplet'' =
           Inr (demoArchive, \<lparr>StatName = ''app'', StatSize = 5\<rparr>)"
    by (simp add: demoContainer_def demoDocker_def)
  have missing: "\<forall>e\<in>set (entries demoArchive). Name e \<noteq> Base ''/tmp/droplet''"
    by (simp add: demoArchive_def base)
  from C10_CopyFrom_closes_archive [OF 1 missing, THEN conjunct1] show ?thesis
    by (simp add: demoArchive_def demoContainer_def)
qed

text \<open>
  C8. With the archive built: when the runtime extracts it, \<open>CopyTo\<close> then closes the
  stream and returns what that close returns; when the extraction fails, \<open>CopyTo\<close>
  returns the error with the extract request as its only event, the stream not closed.
\<close>

theorem C8_CopyTo:
  assumes "tarFile path stream (Size stream) 493 = Inr tar"
  shows "(CopyToContainer (Docker c) tr (ID c) ''/'' (Some tar) = None \<longrightarrow>
            CopyTo tarFile c stream path tr = Stream_Close stream (tr @ [DockerCopyTo (ID c) ''/'']))
       \<and> (\<forall>h bytes closeErr.
             CopyToContainer (Docker c) tr (ID c) ''/'' (Some tar) = None \<and>
             ReadCloser stream = Some (Body h bytes closeErr) \<longrightarrow>
             CopyTo tarFile c stream path tr =
               (Return closeErr, tr @ [DockerCopyTo (ID c) ''/'', CloseStream h]))
       \<and> (\<forall>err. CopyToContainer (Docker c) tr (ID c) ''/'' (Some tar) = Some err \<longrightarrow>
             CopyTo tarFile c stream path tr = (Return (Some err), tr @ [DockerCopyTo (ID c) ''/'']))"
  using assms
  by (auto simp: CopyTo_def ExtractTo_def onlyReader_def Stream_Close_def)

theorem C8_CopyTo_witness:
  "CopyTo demoTarFile demoContainer demoStream ''/tmp/droplet'' [] =
     (Return None, [DockerCopyTo ''4f2a'' ''/'', CloseStream 9])
   \<and> CopyTo demoTarFile extractFails demoStream ''/tmp/droplet'' [] =
     (Return (Some (Err ''no space left on device'')), [DockerCopyTo ''4f2a'' ''/''])"
proof -
  have t: "demoTarFile ''/tmp/droplet'' demoStream (Size demoStream) 493 = Inr [4, 5]"
    by (simp add: demoTarFile_def demoStream_def NewStream_def)
  have ok: "CopyToContainer (Docker demoContainer) [] (ID demoContainer) ''/'' (Some [4, 5]) = None \<and>
            ReadCloser demoStream = Some (Body 9 [4, 5] None)"
    by (simp add: demoContainer_def demoDocker_def demoStream_def NewStream_def)
  have bad: "CopyToContainer (Docker extractFails) [] (ID extractFails) ''/'' (Some [4, 5]) =
             Some (Err ''no space left on device'')"
    by (simp add: extractFails_def demoContainer_def demoDocker_def)
  note th = C8_CopyTo [where tarFile = demoTarFile and path = "''/tmp/droplet''"
      and stream = demoStream and tar = "[4, 5]" and tr = "[]", OF t]
  from th [of demoContainer, THEN conjunct2, THEN conjunct1, rule_format, OF ok]
  have 1: "CopyTo demoTarFile demoContainer demoStream ''/tmp/droplet'' [] =
     (Return None, [DockerCopyTo ''4f2a'' ''/'', CloseStream 9])"
    by (simp add: demoContainer_def)
  from th [of extractFails, THEN conjunct2, THEN conjunct2, rule_format, OF bad]
  have 2: "CopyTo demoTarFile extractFails demoStream ''/tmp/droplet'' [] =
     (Return (Some (Err ''no space left on device'')), [DockerCopyTo ''4f2a'' ''/''])"
    by (simp add: extractFails_def demoContainer_def)
  from 1 2 show ?thesis by blast
qed

section \<open>Properties of the container handle\<close>

lemma extendsBy_iff: "extendsBy cid tr tr' \<longleftrightarrow> (\<exists>evs. tr' = tr @ evs \<and> addressedTo cid evs)"
proof
  assume "extendsBy cid tr tr'"
  then have "tr' = tr @ drop (length tr) tr' \<and> addressedTo cid (drop (length tr) tr')"
    by (metis append_take_drop_id extendsBy_def)
  then show "\<exists>evs. tr' = tr @ evs \<and> addressedTo cid evs" by blast
next
  assume "\<exists>evs. tr' = tr @ evs \<and> addressedTo cid evs"
  then show "extendsBy cid tr tr'" by (auto simp: extendsBy_def)
qed

lemma extendsBy_refl: "extendsBy cid tr tr"
  by (simp add: extendsBy_def addressedTo_def)

lemma extendsBy_append: "addressedTo cid evs \<Longrightarrow> extendsBy cid tr (tr @ evs)"
  by (simp add: extendsBy_def)

lemma extendsBy_trans: "extendsBy cid a b \<Longrightarrow> extendsBy cid b c \<Longrightarrow> extendsBy cid a c"
  by (auto simp: extendsBy_iff addressedTo_def)

lemma extendsBy_snoc: "extendsBy cid a b \<Longrightarrow> addressedTo cid evs \<Longrightarrow> extendsBy cid a (b @ evs)"
  by (auto simp: extendsBy_iff addressedTo_def)

lemma fire_extends: "extendsBy cid (trace s) (trace (fire c s))"
  by (simp add: fire_def extendsBy_refl extendsBy_append addressedTo_def)

lemma watcher_extends: "extendsBy cid (trace s) (trace (watcher s))"
  by (simp add: watcher_def extendsBy_refl extendsBy_append addressedTo_def)

lemma restart_body_extends:
  "restart_body T c s = Inr s' \<Longrightarrow> extendsBy (ID c) (trace s) (trace s')"
  "restart_body T c s = Inl tr \<Longrightarrow> extendsBy (ID c) (trace s) tr"
  by (auto simp: restart_body_def Let_def extendsBy_def addressedTo_def
      split: option.splits sum.splits)

lemma return_late_extends:
  "return_late sv tr r = (x, tr') \<Longrightarrow> extendsBy cid tr tr'"
  by (auto simp: return_late_def extendsBy_def addressedTo_def split: option.splits)

lemma loop_extends:
  "loop T c s sch = Some (r, tr') \<Longrightarrow> extendsBy (ID c) (trace s) tr'"
proof (induction T c s sch arbitrary: r tr' rule: loop.induct)
  case (1 T c s)
  then show ?case by simp
next
  case (2 T c s sch)
  then show ?case using extendsBy_trans [OF fire_extends] by simp
next
  case (3 T c s sch)
  then show ?case using extendsBy_trans [OF watcher_extends] by simp
next
  case (4 T c s sch)
  show ?case
  proof (cases "restartNil s")
    case True
    with 4 show ?thesis by simp
  next
    case False
    show ?thesis
    proof (cases "restart_body T c s")
      case (Inl tr)
      with False "4.prems" have "tr' = tr @ [CloseSrcs, CloseDone]" by simp
      with restart_body_extends(2) [OF Inl] show ?thesis
        by (simp add: extendsBy_snoc addressedTo_def)
    next
      case (Inr s')
      with False "4.prems" have "loop T c s' sch = Some (r, tr')" by simp
      with "4.IH"(2) [OF False Inr] restart_body_extends(1) [OF Inr] show ?thesis
        by (blast intro: extendsBy_trans)
    qed
  qed
next
  case (5 T c s sch)
  then show ?case
    by (auto split: if_splits dest: return_late_extends)
qed

lemma background_extends:
  "background c s sch = (s', sch') \<Longrightarrow> extendsBy cid (trace s) (trace s')"
proof (induction c s sch rule: background.induct)
  case (1 c s sch)
  then show ?case using extendsBy_trans [OF fire_extends] by simp
next
  case (2 c s sch)
  then show ?case using extendsBy_trans [OF watcher_extends] by simp
qed (simp_all add: extendsBy_refl)

lemma Start_extends:
  assumes "Start T c restart sch tr = Some (r, tr')"
  shows "extendsBy (ID c) tr tr'"
proof (cases "ContainerStart (Docker c) tr (ID c)")
  case (Some err)
  with assms show ?thesis
    by (auto simp: Start_def return_early_def extendsBy_def addressedTo_def)
next
  case None
  show ?thesis
  proof (cases "ContainerLogs (Docker c) (tr @ [DockerStart (ID c)]) (ID c) firstLogs")
    case (Inl err)
    with None assms show ?thesis
      by (auto simp: Start_def return_early_def extendsBy_def addressedTo_def)
  next
    case (Inr h)
    let ?s0 = "\<lparr>trace = tr @ [DockerStart (ID c), DockerLogs (ID c) firstLogs, SendSrc h],
                exitFired = False, watching = True, restartNil = (\<not> restart), srcVar = Some h\<rparr>"
    obtain s sch' where bg: "background c ?s0 sch = (s, sch')"
      by (cases "background c ?s0 sch")
    have e0: "extendsBy (ID c) tr (trace ?s0)"
      by (simp add: extendsBy_def addressedTo_def)
    from background_extends [OF bg] have e1: "extendsBy (ID c) (trace ?s0) (trace s)" .
    have e2: "extendsBy (ID c) (trace s) tr'"
    proof (cases "restartNil s")
      case True
      with None Inr bg assms
      have "return_late (srcVar s) (trace s @ [DockerWait (ID c)])
              (ContainerWait (Docker c) (trace s) (ID c)) = (r, tr')"
        by (simp add: Start_def)
      from return_late_extends [OF this, of "ID c"] show ?thesis
        by (auto simp: extendsBy_iff addressedTo_def)
    next
      case False
      with None Inr bg assms have "loop T c s sch' = Some (r, tr')"
        by (simp add: Start_def)
      then show ?thesis by (rule loop_extends)
    qed
    from e0 e1 e2 show ?thesis by (blast intro: extendsBy_trans)
  qed
qed

text \<open>
  C9 (amended). A handle that \<open>NewContainer\<close> returns has the id the runtime gave in
  its answer to the create request; the host name with the random UUID after a hyphen
  is the name that request passes. Start, Commit, CopyTo, CopyFrom and Close read the
  handle and assign to none of its fields, and every request they send to the runtime
  names that id.
\<close>

theorem C9_container_id:
  assumes "NewContainer NewV4 d cfg hostConfig tr = (Inr c, tr')"
  shows "(\<exists>uuid. NewV4 = Inr uuid \<and>
              ContainerCreate d tr cfg hostConfig (Hostname cfg @ ''-'' @ uuid) = Inr (ID c) \<and>
              tr' = tr @ [DockerCreate cfg hostConfig (Hostname cfg @ ''-'' @ uuid)])
       \<and> (\<forall>T restart sch tr0 r tr1.
             Start T c restart sch tr0 = Some (r, tr1) \<longrightarrow> extendsBy (ID c) tr0 tr1)
       \<and> (\<forall>ref tr0. snd (Commit c ref tr0) =
             tr0 @ [DockerCommit (ID c)
                      \<lparr>Reference = ref, Author = ''CF Local'', Pause = True, CommitConfig = cfg\<rparr>])
       \<and> (\<forall>tarFile stream path tr0.
             snd (CopyTo tarFile c stream path tr0) = tr0 \<or>
             snd (CopyTo tarFile c stream path tr0) = tr0 @ [DockerCopyTo (ID c) ''/''] \<or>
             snd (CopyTo tarFile c stream path tr0) =
               snd (Stream_Close stream (tr0 @ [DockerCopyTo (ID c) ''/''])))
       \<and> (\<forall>path tr0.
             snd (CopyFrom c path tr0) = tr0 @ [DockerCopyFrom (ID c) path] \<or>
             (\<exists>tar stat. CopyFromContainer (Docker c) tr0 (ID c) path = Inr (tar, stat) \<and>
                snd (CopyFrom c path tr0) =
                  snd (ReadCloser_Close (raw tar) (tr0 @ [DockerCopyFrom (ID c) path]))))
       \<and> (\<forall>tr0. snd (Close c tr0) = tr0 @ [DockerRemove (ID c) True])"
proof (intro conjI allI impI)
  from assms show "\<exists>uuid. NewV4 = Inr uuid \<and>
              ContainerCreate d tr cfg hostConfig (Hostname cfg @ ''-'' @ uuid) = Inr (ID c) \<and>
              tr' = tr @ [DockerCreate cfg hostConfig (Hostname cfg @ ''-'' @ uuid)]"
    by (auto simp: NewContainer_def Let_def split: sum.splits)
next
  fix T restart sch tr0 r tr1
  assume "Start T c restart sch tr0 = Some (r, tr1)"
  then show "extendsBy (ID c) tr0 tr1" by (rule Start_extends)
next
  fix ref tr0
  from assms have "config c = cfg"
    by (auto simp: NewContainer_def Let_def split: sum.splits)
  then show "snd (Commit c ref tr0) =
             tr0 @ [DockerCommit (ID c)
                      \<lparr>Reference = ref, Author = ''CF Local'', Pause = True, CommitConfig = cfg\<rparr>]"
    by (simp add: Commit_def Let_def)
next
  fix tarFile stream path tr0
  show "snd (CopyTo tarFile c stream path tr0) = tr0 \<or>
        snd (CopyTo tarFile c stream path tr0) = tr0 @ [DockerCopyTo (ID c) ''/''] \<or>
        snd (CopyTo tarFile c stream path tr0) =
          snd (Stream_Close stream (tr0 @ [DockerCopyTo (ID c) ''/'']))"
    by (simp add: CopyTo_def ExtractTo_def split: sum.splits option.splits)
next
  fix path tr0
  show "snd (CopyFrom c path tr0) = tr0 @ [DockerCopyFrom (ID c) path] \<or>
        (\<exists>tar stat. CopyFromContainer (Docker c) tr0 (ID c) path = Inr (tar, stat) \<and>
           snd (CopyFrom c path tr0) =
             snd (ReadCloser_Close (raw tar) (tr0 @ [DockerCopyFrom (ID c) path])))"
    by (cases "CopyFromContainer (Docker c) tr0 (ID c) path")
       (auto simp: CopyFrom_def Let_def split: sum.splits prod.splits)
next
  fix tr0
  show "snd (Close c tr0) = tr0 @ [DockerRemove (ID c) True]"
    by (simp add: Close_def)
qed

theorem C9_container_id_witness:
  "NewContainer (Inr ''1b4e28ba'') demoDocker \<lparr>Hostname = ''web'', Image = ''X''\<rparr> (HostConfig []) [] =
     (Inr (demoContainer\<lparr>Exit := None\<rparr>),
      [DockerCreate \<lparr>Hostname = ''web'', Image = ''X''\<rparr> (HostConfig []) ''web-1b4e28ba''])
   \<and> snd (Close (demoContainer\<lparr>Exit := None\<rparr>) []) = [DockerRemove ''4f2a'' True]
   \<and> snd (Commit (demoContainer\<lparr>Exit := None\<rparr>) ''v1'' []) =
       [DockerCommit ''4f2a''
          \<lparr>Reference = ''v1'', Author = ''CF Local'', Pause = True,
           CommitConfig = \<lparr>Hostname = ''web'', Image = ''X''\<rparr>\<rparr>]
   \<and> extendsBy ''4f2a'' []
       [DockerStart ''4f2a'', DockerLogs ''4f2a'' firstLogs, SendSrc 1, DockerWait ''4f2a'',
        CloseStream 1, CloseSrcs, CloseDone]"
proof -
  have new: "NewContainer (Inr ''1b4e28ba'') demoDocker \<lparr>Hostname = ''web'', Image = ''X''\<rparr> (HostConfig []) [] =
     (Inr (demoContainer\<lparr>Exit := None\<rparr>),
      [DockerCreate \<lparr>Hostname = ''web'', Image = ''X''\<rparr> (HostConfig []) ''web-1b4e28ba''])"
    by (simp add: NewContainer_def demoContainer_def demoDocker_def)
  have id: "ID (demoContainer\<lparr>Exit := None\<rparr>) = ''4f2a''"
    by (simp add: demoContainer_def)
  have run: "Start demoTime (demoContainer\<lparr>Exit := None\<rparr>) False [] [] =
     Some (Return (3, None),
       [DockerStart ''4f2a'', DockerLogs ''4f2a'' firstLogs, SendSrc 1, DockerWait ''4f2a'',
        CloseStream 1, CloseSrcs, CloseDone])"
    by (simp add: Start_def demoContainer_def demoDocker_def return_late_def
        normalizeCanceled_def isErrCanceled_None)
  note th = C9_container_id [OF new]
  from th have 1: "snd (Close (demoContainer\<lparr>Exit := None\<rparr>) []) = [DockerRemove ''4f2a'' True]"
    by (simp add: id)
  from th have 2: "snd (Commit (demoContainer\<lparr>Exit := None\<rparr>) ''v1'' []) =
       [DockerCommit ''4f2a''
          \<lparr>Reference = ''v1'', Author = ''CF Local'', Pause = True,
           CommitConfig = \<lparr>Hostname = ''web'', Image = ''X''\<rparr>\<rparr>]"
    by (simp add: id)
  from th [THEN conjunct2, THEN conjunct1, rule_format, OF run]
  have 3: "extendsBy ''4f2a'' []
       [DockerStart ''4f2a'', DockerLogs ''4f2a'' firstLogs, SendSrc 1, DockerWait ''4f2a'',
        CloseStream 1, CloseSrcs, CloseDone]"
    by (simp add: id)
  from new 1 2 3 show ?thesis by blast
qed

text \<open>
  C9 as stated fails: the id of the handle is the runtime's answer (here \<open>4f2a\<close>), not
  the host name joined with the random suffix (here \<open>web-1b4e28ba\<close>), which is only
  the name the create request passes.
\<close>

theorem C9_id_counterexample:
  "fst (NewContainer (Inr ''1b4e28ba'') demoDocker \<lparr>Hostname = ''web'', Image = ''X''\<rparr> (HostConfig []) [])
     = Inr (demoContainer\<lparr>Exit := None\<rparr>)
   \<and> ID (demoContainer\<lparr>Exit := None\<rparr>) = ''4f2a''
   \<and> ''4f2a'' \<noteq> Hostname \<lparr>Hostname = ''web'', Image = ''X''\<rparr> @ ''-'' @ ''1b4e28ba''"
  by (simp add: NewContainer_def demoContainer_def demoDocker_def)

end
